theory Spec2Isabelle
  imports Complex_Main "HOL-Library.Multiset" "HOL-Library.Word"
begin

unbundle bit_operations_syntax

section \<open>Model names (scripts.js, lines 413-455)\<close>

text \<open>
  A JavaScript string is modelled as a \<open>string\<close> (a list of characters). The only
  character the functions below look at is the ASCII separator \<open>+\<close>, so the
  difference between UTF-16 code units and bytes plays no role.
\<close>

text \<open>\<open>s.split('+')\<close>: the pieces between the separators; never the empty array.\<close>

fun split_plus :: "string \<Rightarrow> string list" where
  "split_plus [] = [[]]"
| "split_plus (c # cs) =
     (if c = CHR ''+'' then [] # split_plus cs
      else (case split_plus cs of
              [] \<Rightarrow> [[c]]
            | p # ps \<Rightarrow> (c # p) # ps))"

text \<open>\<open>parts.join('+')\<close>.\<close>

fun join_plus :: "string list \<Rightarrow> string" where
  "join_plus [] = []"
| "join_plus [p] = p"
| "join_plus (p # q # ps) = p @ CHR ''+'' # join_plus (q # ps)"

text \<open>The constant \<open>omicsOrder\<close> of \<open>canonicalizeModelName\<close> (line 433).\<close>

definition omicsOrder :: "string list" where
  "omicsOrder = [''PRS'', ''MetScore'', ''ProScore'']"

text \<open>\<open>arr.indexOf(a)\<close>: the first position of \<open>a\<close>, or \<open>-1\<close>.\<close>

fun indexOf :: "'a list \<Rightarrow> 'a \<Rightarrow> int" where
  "indexOf [] a = -1"
| "indexOf (x # xs) a =
     (if x = a then 0 else (let i = indexOf xs a in if i < 0 then -1 else i + 1))"

text \<open>
  \<open>canonicalizeModelName\<close> (lines 425-437). The argument is a string (its callers pass
  the result of \<open>mapModelName\<close> or of \<open>join\<close>); \<open>!modelName\<close> is then the test
  for the empty string. \<open>Array.prototype.sort\<close> with the comparator
  \<open>(a, b) => omicsOrder.indexOf(a) - omicsOrder.indexOf(b)\<close> is a stable sort
  (ECMAScript 2019) by the key \<open>omicsOrder.indexOf\<close>, which is what \<open>sort_key\<close> is.
\<close>

definition canonicalizeModelName :: "string \<Rightarrow> string" where
  "canonicalizeModelName modelName =
     (if modelName = [] \<or> CHR ''+'' \<notin> set modelName then modelName
      else
        (let parts = split_plus modelName;
             baseModel = hd parts;
             omics = sort_key (indexOf omicsOrder) (tl parts)
         in join_plus (baseModel # omics)))"

text \<open>
  \<open>generateModelCombinations\<close> (lines 439-455). The bit operators of JavaScript work
  on 32-bit integers: \<open>1 << n\<close> shifts by \<open>n mod 32\<close> and the result is read as a
  signed value; \<open>i & m\<close> converts \<open>i\<close> to 32 bits first.
\<close>

definition shl1 :: "nat \<Rightarrow> int" where
  "shl1 n = sint (push_bit (n mod 32) (1 :: 32 word))"

definition bit_selected :: "nat \<Rightarrow> nat \<Rightarrow> bool" where
  "bit_selected i j = (sint ((word_of_nat i :: 32 word) AND push_bit (j mod 32) 1) > 0)"

text \<open>The inner loop (lines 445-450): the add-ons whose bit is set in \<open>i\<close>.\<close>

definition subset_of_mask :: "string list \<Rightarrow> nat \<Rightarrow> string list" where
  "subset_of_mask omicsArray i =
     map (\<lambda>j. omicsArray ! j) (filter (bit_selected i) [0 ..< length omicsArray])"

definition generateModelCombinations :: "string \<Rightarrow> string list \<Rightarrow> string list" where
  "generateModelCombinations baseModel omicsArray =
     (if baseModel = [] then []
      else map (\<lambda>i. canonicalizeModelName (join_plus (baseModel # subset_of_mask omicsArray i)))
               [0 ..< nat (shl1 (length omicsArray))])"

section \<open>Numbers\<close>

text \<open>
  A JavaScript number is a double. The model keeps the three special values apart and
  takes every finite value as the real number it denotes: rounding, overflow of a finite
  result to an infinity and the sign of zero are not modelled. What the operations do on
  \<open>NaN\<close> and on the infinities follows ECMAScript (IEEE 754).
\<close>

datatype jsnum = NaN | PInf | NInf | Fin real

definition isNaN :: "jsnum \<Rightarrow> bool" where
  "isNaN v = (v = NaN)"

fun js_neg :: "jsnum \<Rightarrow> jsnum" where
  "js_neg NaN = NaN"
| "js_neg PInf = NInf"
| "js_neg NInf = PInf"
| "js_neg (Fin x) = Fin (- x)"

text \<open>\<open>a + b\<close> on numbers.\<close>

fun js_add :: "jsnum \<Rightarrow> jsnum \<Rightarrow> jsnum" where
  "js_add NaN b = NaN"
| "js_add a NaN = NaN"
| "js_add (Fin x) (Fin y) = Fin (x + y)"
| "js_add PInf NInf = NaN"
| "js_add NInf PInf = NaN"
| "js_add PInf b = PInf"
| "js_add NInf b = NInf"
| "js_add (Fin x) b = b"

definition js_sub :: "jsnum \<Rightarrow> jsnum \<Rightarrow> jsnum" where
  "js_sub a b = js_add a (js_neg b)"

text \<open>The sign of a number that is not \<open>NaN\<close>, and the infinity of a sign.\<close>

fun js_sign :: "jsnum \<Rightarrow> real" where
  "js_sign NaN = 0"
| "js_sign PInf = 1"
| "js_sign NInf = - 1"
| "js_sign (Fin x) = sgn x"

definition inf_of_sign :: "real \<Rightarrow> jsnum" where
  "inf_of_sign s = (if 0 < s then PInf else if s < 0 then NInf else NaN)"

text \<open>\<open>a * b\<close>: an infinity times zero is \<open>NaN\<close>.\<close>

fun js_mul :: "jsnum \<Rightarrow> jsnum \<Rightarrow> jsnum" where
  "js_mul NaN b = NaN"
| "js_mul a NaN = NaN"
| "js_mul (Fin x) (Fin y) = Fin (x * y)"
| "js_mul a b = inf_of_sign (js_sign a * js_sign b)"

text \<open>
  \<open>a / b\<close>. A finite value over zero is an infinity whose sign would depend on the sign
  of the zero; the model takes the zero as positive. \<open>calculateRisk\<close> never divides by
  zero (line 334).
\<close>

fun js_div :: "jsnum \<Rightarrow> jsnum \<Rightarrow> jsnum" where
  "js_div NaN b = NaN"
| "js_div a NaN = NaN"
| "js_div (Fin x) (Fin y) = (if y = 0 then inf_of_sign x else Fin (x / y))"
| "js_div (Fin x) b = Fin 0"
| "js_div a (Fin y) = (if y < 0 then js_neg a else a)"
| "js_div a b = NaN"

text \<open>\<open>Math.sqrt\<close>, \<open>Math.exp\<close>.\<close>

fun js_sqrt :: "jsnum \<Rightarrow> jsnum" where
  "js_sqrt NaN = NaN"
| "js_sqrt PInf = PInf"
| "js_sqrt NInf = NaN"
| "js_sqrt (Fin x) = (if x < 0 then NaN else Fin (sqrt x))"

fun js_exp :: "jsnum \<Rightarrow> jsnum" where
  "js_exp NaN = NaN"
| "js_exp PInf = PInf"
| "js_exp NInf = Fin 0"
| "js_exp (Fin x) = Fin (exp x)"

text \<open>
  \<open>Math.pow(base, exponent)\<close> (ECMAScript, Number::exponentiate), in the order of its
  cases: a \<open>NaN\<close> exponent, a zero exponent, a \<open>NaN\<close> base, an infinite base, a zero
  base, an infinite exponent, a negative base with a fractional exponent, and the power.
\<close>

definition odd_integer :: "real \<Rightarrow> bool" where
  "odd_integer y = (y = of_int \<lfloor>y\<rfloor> \<and> odd \<lfloor>y\<rfloor>)"

fun js_pow :: "jsnum \<Rightarrow> jsnum \<Rightarrow> jsnum" where
  "js_pow b NaN = NaN"
| "js_pow NaN e = (if e = Fin 0 then Fin 1 else NaN)"
| "js_pow PInf e = (if e = Fin 0 then Fin 1 else if 0 < js_sign e then PInf else Fin 0)"
| "js_pow NInf PInf = PInf"
| "js_pow NInf NInf = Fin 0"
| "js_pow NInf (Fin y) =
     (if y = 0 then Fin 1
      else if 0 < y then (if odd_integer y then NInf else PInf)
      else Fin 0)"
| "js_pow (Fin x) PInf =
     (if x = 0 then Fin 0
      else if 1 < \<bar>x\<bar> then PInf else if \<bar>x\<bar> = 1 then NaN else Fin 0)"
| "js_pow (Fin x) NInf =
     (if x = 0 then PInf
      else if 1 < \<bar>x\<bar> then Fin 0 else if \<bar>x\<bar> = 1 then NaN else PInf)"
| "js_pow (Fin x) (Fin y) =
     (if y = 0 then Fin 1
      else if x = 0 then (if 0 < y then Fin 0 else PInf)
      else if 0 < x then Fin (x powr y)
      else if y = of_int \<lfloor>y\<rfloor> then Fin ((if odd \<lfloor>y\<rfloor> then - 1 else 1) * (\<bar>x\<bar> powr y))
      else NaN)"

text \<open>\<open>a < b\<close> and \<open>a <= b\<close>: false whenever an operand is \<open>NaN\<close>.\<close>

fun js_less :: "jsnum \<Rightarrow> jsnum \<Rightarrow> bool" where
  "js_less NaN b = False"
| "js_less a NaN = False"
| "js_less (Fin x) (Fin y) = (x < y)"
| "js_less a NInf = False"
| "js_less PInf b = False"
| "js_less NInf b = True"
| "js_less (Fin x) PInf = True"

definition js_le :: "jsnum \<Rightarrow> jsnum \<Rightarrow> bool" where
  "js_le a b = (js_less a b \<or> (a = b \<and> a \<noteq> NaN))"

section \<open>Numbers and strings\<close>

text \<open>
  \<open>parseFloat\<close>, the conversion of a string to a number and the digits of a number that
  is not a small integer are functions of the host, not of this program: they are
  parameters of the model.
\<close>

record host =
  parseFloat :: "string \<Rightarrow> jsnum"
  toNumber :: "string \<Rightarrow> jsnum"
  finiteToString :: "real \<Rightarrow> string"

text \<open>The decimal digits of a natural number.\<close>

fun dec :: "nat \<Rightarrow> string" where
  "dec n = (if n < 10 then [''0123456789'' ! n]
            else dec (n div 10) @ [''0123456789'' ! (n mod 10)])"

declare dec.simps [simp del]

text \<open>
  A number as a string (\<open>ToString\<close>, used where a number is a property key). An integer
  below \<open>2^53\<close> is written with its decimal digits; the other finite values are the
  host's.
\<close>

definition numberToString :: "host \<Rightarrow> jsnum \<Rightarrow> string" where
  "numberToString h v =
     (case v of
        NaN \<Rightarrow> ''NaN''
      | PInf \<Rightarrow> ''Infinity''
      | NInf \<Rightarrow> ''-Infinity''
      | Fin x \<Rightarrow>
          if x = of_int \<lfloor>x\<rfloor> \<and> \<bar>x\<bar> < 2 ^ 53
          then (if x < 0 then ''-'' else []) @ dec (nat \<lfloor>\<bar>x\<bar>\<rfloor>)
          else finiteToString h x)"

text \<open>
  \<open>v.toFixed(1)\<close> (ECMAScript, Number.prototype.toFixed): a value that is not finite is
  written as \<open>ToString\<close> writes it; a finite one is rounded to the nearest tenth, the
  larger one of two nearest.
\<close>

definition toFixed1 :: "host \<Rightarrow> jsnum \<Rightarrow> string" where
  "toFixed1 h v =
     (case v of
        Fin x \<Rightarrow>
          (let s = (if x < 0 then ''-'' else []); a = \<bar>x\<bar>
           in if 10 ^ 21 \<le> a then s @ numberToString h (Fin a)
              else (let n = nat \<lfloor>a * 10 + 1 / 2\<rfloor>
                    in s @ dec (n div 10) @ ''.'' @ dec (n mod 10)))
      | _ \<Rightarrow> numberToString h v)"

text \<open>\<open>s.startsWith(p)\<close> and \<open>s.includes(p)\<close>.\<close>

definition startsWith :: "string \<Rightarrow> string \<Rightarrow> bool" where
  "startsWith p s = (take (length p) s = p)"

fun includes_str :: "string \<Rightarrow> string \<Rightarrow> bool" where
  "includes_str p [] = (p = [])"
| "includes_str p (c # cs) = (startsWith p (c # cs) \<or> includes_str p cs)"

section \<open>The reference data (scripts.js, lines 1-94)\<close>

text \<open>
  A parsed CSV line is an object from column names to cell texts: here the list of its
  own properties in the order of \<open>Object.keys\<close>, each key once. \<open>row[k]\<close> is
  \<open>map_of row k\<close>, \<open>None\<close> for \<open>undefined\<close>. A value that is \<open>undefined\<close> and is
  used as a property key is the key \<open>undefined\<close>; \<open>parseFloat(undefined)\<close> is
  \<open>NaN\<close>. Properties that a plain object inherits from \<open>Object.prototype\<close> are not
  modelled: no key of the data is one of their names.
\<close>

type_synonym row = "(string \<times> string) list"

definition propKey :: "string option \<Rightarrow> string" where
  "propKey k = (case k of None \<Rightarrow> ''undefined'' | Some s \<Rightarrow> s)"

definition parseFloat_cell :: "host \<Rightarrow> string option \<Rightarrow> jsnum" where
  "parseFloat_cell h c = (case c of None \<Rightarrow> NaN | Some s \<Rightarrow> parseFloat h s)"

definition diseaseMap :: "(string \<times> string) list" where
  "diseaseMap =
     [(''cad'', ''Coronary artery disease''),
      (''stroke'', ''Stroke''),
      (''hf'', ''Heart failure''),
      (''af'', ''Atrial fibrillation''),
      (''pad'', ''Peripheral artery disease''),
      (''vte'', ''Venous thromboembolism'')]"

definition friendlyVariableNames :: "(string \<times> string) list" where
  "friendlyVariableNames =
     [(''age'', ''Age (years)''),
      (''sbp'', ''Systolic Blood Pressure''),
      (''dbp'', ''Diastolic Blood Pressure''),
      (''height'', ''Height''),
      (''weight'', ''Weight''),
      (''waist_cir'', ''Waist Circumference''),
      (''waist_hip_ratio'', ''Waist-Hip Ratio''),
      (''bmi'', ''Body Mass Index''),
      (''baso'', ''Basophill Count''),
      (''eos'', ''Eosinophill Count''),
      (''hct'', ''Haematocrit''),
      (''hb'', ''Haemoglobin''),
      (''lc'', ''Lymphocyte Count''),
      (''mc'', ''Monocyte Count''),
      (''nc'', ''Neutrophill Count''),
      (''plt'', ''Platelet Count''),
      (''wbc'', ''Leukocyte Count'')]"

text \<open>
  The percentile lookup structure \<open>percentileMap\<close>: disease, then score name, then
  rank key, to the score.
\<close>

type_synonym rank_map = "string \<rightharpoonup> jsnum"
type_synonym score_map = "string \<rightharpoonup> rank_map"
type_synonym percentile_map = "string \<rightharpoonup> score_map"

text \<open>The global variables that \<open>calculateRisk\<close> reads (lines 33-38).\<close>

record env =
  baselineSurvivals :: "row list"
  coefficients :: "row list"
  panelScalerParams :: "row list"
  percentileMap :: percentile_map

text \<open>
  \<open>preparePercentilesData\<close> (lines 75-94), one line of \<open>percentiles\<close> at a time: the
  columns other than \<open>outcome\<close> and \<open>score\<close> whose name starts with \<open>p\<close> are stored
  under the rest of their name.
\<close>

definition addPercentileValue :: "host \<Rightarrow> rank_map \<Rightarrow> string \<times> string \<Rightarrow> rank_map" where
  "addPercentileValue h byRank kv =
     (case kv of (pKey, cell) \<Rightarrow>
        if startsWith ''p'' pKey then byRank(drop 1 pKey \<mapsto> parseFloat h cell) else byRank)"

definition addPercentileRow :: "host \<Rightarrow> percentile_map \<Rightarrow> row \<Rightarrow> percentile_map" where
  "addPercentileRow h pm r =
     (let outcome = propKey (map_of r ''outcome'');
          score = propKey (map_of r ''score'');
          percentileValues = filter (\<lambda>kv. fst kv \<noteq> ''outcome'' \<and> fst kv \<noteq> ''score'') r;
          byScore = (case pm outcome of None \<Rightarrow> Map.empty | Some m \<Rightarrow> m);
          byRank = (case byScore score of None \<Rightarrow> Map.empty | Some m \<Rightarrow> m)
      in pm(outcome \<mapsto> byScore(score \<mapsto> foldl (addPercentileValue h) byRank percentileValues)))"

definition preparePercentilesData :: "host \<Rightarrow> row list \<Rightarrow> percentile_map \<Rightarrow> percentile_map" where
  "preparePercentilesData h percentiles pm = foldl (addPercentileRow h) pm percentiles"

text \<open>\<open>getDiseaseCode\<close> (lines 203-206): the code of a display name, or \<open>undefined\<close>.\<close>

definition getDiseaseCode :: "string \<Rightarrow> string option" where
  "getDiseaseCode diseaseName =
     map_of (rev (map (\<lambda>(code, name). (name, code)) diseaseMap)) diseaseName"

section \<open>The risk calculation (scripts.js, lines 263-395)\<close>

text \<open>
  A value of the form data: the text of an input element or a number. \<open>collectFormData\<close>
  reads the page; the model takes the object it returns, as the list of its properties in
  the order they were set.
\<close>

datatype field = Text string | Number jsnum

text \<open>A form value as an argument of \<open>parseFloat\<close>, and in arithmetic.\<close>

definition text_of :: "host \<Rightarrow> field \<Rightarrow> string" where
  "text_of h f = (case f of Text s \<Rightarrow> s | Number n \<Rightarrow> numberToString h n)"

definition num_of :: "host \<Rightarrow> field option \<Rightarrow> jsnum" where
  "num_of h f =
     (case f of None \<Rightarrow> NaN | Some (Text s) \<Rightarrow> toNumber h s | Some (Number n) \<Rightarrow> n)"

definition fieldKey :: "host \<Rightarrow> field option \<Rightarrow> string" where
  "fieldKey h f =
     (case f of None \<Rightarrow> ''undefined'' | Some (Text s) \<Rightarrow> s | Some (Number n) \<Rightarrow> numberToString h n)"

text \<open>
  What the calculation shows: the text of \<open>#selected-disease-name\<close> and of
  \<open>#disease-risk\<close>, whether \<open>#risk-results\<close> is displayed, the alerts and the console
  lines, oldest first. (The description line and the scrolling, lines 284 and 287, are
  left out.)
\<close>

record ui =
  disease_name :: string
  disease_risk :: string
  results_shown :: bool
  alerts :: "string list"
  console :: "string list"

text \<open>How a call of \<open>calculateRisk\<close> ends: at one of its four \<open>return\<close>s, at its last
  line, or with the \<open>TypeError\<close> of line 354 on an empty coefficient table.\<close>

datatype exit =
    ReturnInvalidInput
  | ReturnLookupFailed
  | ReturnScalingFailed
  | ThrowTypeError
  | ReturnDone

text \<open>Lines 267-279: the numeric fields are parsed, the others copied.\<close>

definition copied_raw :: "string \<Rightarrow> bool" where
  "copied_raw key =
     (key = ''male_1.0'' \<or> startsWith ''ethnicity'' key \<or> includes_str ''_1.0'' key)"

definition friendlyName :: "string \<Rightarrow> string" where
  "friendlyName key =
     (case map_of friendlyVariableNames key of
        None \<Rightarrow> key
      | Some n \<Rightarrow> if n = [] then key else n)"

fun parseForm ::
  "host \<Rightarrow> (string \<times> field) list \<Rightarrow> (string \<rightharpoonup> field) \<Rightarrow> string + (string \<rightharpoonup> field)" where
  "parseForm h [] parsedData = Inr parsedData"
| "parseForm h ((key, v) # formData) parsedData =
     (if copied_raw key then parseForm h formData (parsedData(key \<mapsto> v))
      else (let x = parseFloat h (text_of h v)
            in if isNaN x then Inl key
               else parseForm h formData (parsedData(key \<mapsto> Number x))))"

definition invalidNumberMessage :: "string \<Rightarrow> string" where
  "invalidNumberMessage key = ''Please enter a valid number for: '' @ friendlyName key"

text \<open>Lines 290-299: the ethnicity as three indicators.\<close>

definition encodeEthnicity :: "(string \<rightharpoonup> field) \<Rightarrow> (string \<rightharpoonup> field)" where
  "encodeEthnicity parsedData =
     (let ethnicityValue = parsedData ''ethnicity'';
          p = parsedData(''ethnicity_1.0'' \<mapsto> Number (Fin 0),
                         ''ethnicity_2.0'' \<mapsto> Number (Fin 0),
                         ''ethnicity_3.0'' \<mapsto> Number (Fin 0));
          q = (if ethnicityValue = Some (Number (Fin 1)) then p(''ethnicity_1.0'' \<mapsto> Number (Fin 1))
               else if ethnicityValue = Some (Number (Fin 2)) then p(''ethnicity_2.0'' \<mapsto> Number (Fin 1))
               else if ethnicityValue = Some (Number (Fin 3)) then p(''ethnicity_3.0'' \<mapsto> Number (Fin 1))
               else p)
      in q(''ethnicity'' := None))"

text \<open>
  Lines 303-317. The value of \<open>percentileMap[code][pVar][percentileValue]\<close>: \<open>None\<close>
  when an object on the way is \<open>undefined\<close> (the access throws) or the rank is missing
  (\<open>actualScore === undefined\<close>, line 308, throws); the \<open>catch\<close> of line 312 takes
  both.
\<close>

definition percentileVars :: "string list" where
  "percentileVars = [''townsend'', ''prs'', ''metscore'', ''proscore'']"

definition lookupPercentile :: "percentile_map \<Rightarrow> string \<Rightarrow> string \<Rightarrow> string \<Rightarrow> jsnum option" where
  "lookupPercentile pm code pVar rank =
     (case pm code of
        None \<Rightarrow> None
      | Some byScore \<Rightarrow>
          (case byScore pVar of
             None \<Rightarrow> None
           | Some byRank \<Rightarrow> byRank rank))"

fun resolvePercentiles ::
  "host \<Rightarrow> percentile_map \<Rightarrow> string \<Rightarrow> string list \<Rightarrow> (string \<rightharpoonup> field)
     \<Rightarrow> string + (string \<rightharpoonup> field)" where
  "resolvePercentiles h pm code [] parsedData = Inr parsedData"
| "resolvePercentiles h pm code (pVar # pVars) parsedData =
     (case lookupPercentile pm code pVar (fieldKey h (parsedData pVar)) of
        None \<Rightarrow> Inl pVar
      | Some actualScore \<Rightarrow>
          resolvePercentiles h pm code pVars (parsedData(pVar \<mapsto> Number actualScore)))"

definition lookupFailedMessage :: "string \<Rightarrow> string" where
  "lookupFailedMessage pVar =
     ''Could not find percentile mapping for '' @ [CHR 0x22] @ pVar @ [CHR 0x22] @
     '' for the selected disease. Please check the '' @ [CHR 0x27] @ ''percentiles.csv'' @
     [CHR 0x27] @ '' file.''"

text \<open>Lines 319-346: the panel variables are standardised, until one fails.\<close>

definition panelVars :: "string list" where
  "panelVars =
     [''age'', ''sbp'', ''dbp'', ''height'', ''weight'', ''waist_cir'', ''waist_hip_ratio'',
      ''bmi'', ''baso'', ''eos'', ''hct'', ''hb'', ''lc'', ''mc'', ''nc'', ''plt'', ''wbc'']"

definition zeroStdLog :: "string \<Rightarrow> string" where
  "zeroStdLog v =
     ''Standard deviation is zero for variable: '' @ [CHR 0x27] @ v @ [CHR 0x27] @
     ''. Cannot scale.''"

definition zeroStdMessage :: "string \<Rightarrow> string" where
  "zeroStdMessage v =
     ''Error: Scaling parameter for '' @ [CHR 0x27] @ v @ [CHR 0x27] @
     '' is invalid (Standard Deviation is 0).''"

definition missingParamsLog :: "string \<Rightarrow> string" where
  "missingParamsLog v =
     ''Could not find scaling parameters for variable: '' @ [CHR 0x27] @ v @ [CHR 0x27] @
     ''. Please check '' @ [CHR 0x27] @ ''PANEL_scaler_params.csv'' @ [CHR 0x27] @ ''.''"

definition missingParamsMessage :: "string \<Rightarrow> string" where
  "missingParamsMessage v =
     ''Error: Scaling parameters for '' @ [CHR 0x27] @ v @ [CHR 0x27] @
     '' are missing. The calculation cannot proceed.''"

record scaling =
  scaledData :: "string \<rightharpoonup> jsnum"
  scalingError :: bool
  scaling_ui :: ui

definition scaleVariable ::
  "host \<Rightarrow> row list \<Rightarrow> (string \<rightharpoonup> field) \<Rightarrow> scaling \<Rightarrow> string \<Rightarrow> scaling" where
  "scaleVariable h params parsedData st v =
     (if scalingError st then st
      else
        (case find (\<lambda>p. map_of p ''feature'' = Some v) params of
           Some p \<Rightarrow>
             (let mean = parseFloat_cell h (map_of p ''mean'');
                  variance = parseFloat_cell h (map_of p ''variance'');
                  std = js_sqrt variance
              in if std = Fin 0
                 then st\<lparr>scalingError := True,
                         scaling_ui := (scaling_ui st)
                           \<lparr>alerts := alerts (scaling_ui st) @ [zeroStdMessage v],
                            console := console (scaling_ui st) @ [zeroStdLog v]\<rparr>\<rparr>
                 else st\<lparr>scaledData := (scaledData st)
                           (v \<mapsto> js_div (js_sub (num_of h (parsedData v)) mean) std)\<rparr>)
         | None \<Rightarrow>
             st\<lparr>scalingError := True,
                scaling_ui := (scaling_ui st)
                  \<lparr>alerts := alerts (scaling_ui st) @ [missingParamsMessage v],
                   console := console (scaling_ui st) @ [missingParamsLog v]\<rparr>\<rparr>))"

definition scalePanel ::
  "host \<Rightarrow> row list \<Rightarrow> (string \<rightharpoonup> field) \<Rightarrow> ui \<Rightarrow> scaling" where
  "scalePanel h params parsedData u =
     foldl (scaleVariable h params parsedData)
       \<lparr>scaledData = Map.empty, scalingError = False, scaling_ui = u\<rparr> panelVars"

text \<open>Lines 353-369: the linear predictor.\<close>

record coeff =
  variable :: "string option"
  coeff_value :: jsnum

definition featureColumnName :: "row \<Rightarrow> string option" where
  "featureColumnName r = (case r of [] \<Rightarrow> None | kv # _ \<Rightarrow> Some (fst kv))"

definition diseaseCoefficients :: "host \<Rightarrow> row list \<Rightarrow> string option \<Rightarrow> string \<Rightarrow> coeff list" where
  "diseaseCoefficients h rows featureColumn code =
     map (\<lambda>r. \<lparr>variable = map_of r (propKey featureColumn),
                coeff_value = parseFloat_cell h (map_of r code)\<rparr>) rows"

definition addTerm ::
  "host \<Rightarrow> (string \<rightharpoonup> jsnum) \<Rightarrow> (string \<rightharpoonup> field) \<Rightarrow> jsnum \<Rightarrow> coeff \<Rightarrow> jsnum" where
  "addTerm h scaled parsedData linearPredictor c =
     (let varName = propKey (variable c); coeffValue = coeff_value c
      in if isNaN coeffValue then linearPredictor
         else (case scaled varName of
                 Some z \<Rightarrow> js_add linearPredictor (js_mul z coeffValue)
               | None \<Rightarrow>
                   (case parsedData varName of
                      Some f \<Rightarrow> js_add linearPredictor (js_mul (num_of h (Some f)) coeffValue)
                    | None \<Rightarrow> linearPredictor)))"

definition linearPredictorOf ::
  "host \<Rightarrow> row list \<Rightarrow> string option \<Rightarrow> string \<Rightarrow> (string \<rightharpoonup> jsnum) \<Rightarrow> (string \<rightharpoonup> field)
     \<Rightarrow> jsnum" where
  "linearPredictorOf h rows featureColumn code scaled parsedData =
     foldl (addTerm h scaled parsedData) (Fin 0) (diseaseCoefficients h rows featureColumn code)"

text \<open>Lines 371-388: the baseline survival at ten years.\<close>

record point =
  time :: jsnum
  survival :: jsnum

definition targetTime :: jsnum where
  "targetTime = Fin 10"

definition diseaseSurvivalData :: "host \<Rightarrow> row list \<Rightarrow> string \<Rightarrow> point list" where
  "diseaseSurvivalData h rows code =
     filter (\<lambda>p. \<not> isNaN (survival p) \<and> \<not> isNaN (time p))
       (map (\<lambda>r. \<lparr>time = parseFloat_cell h (map_of r ''Time''),
                  survival = parseFloat_cell h (map_of r code)\<rparr>) rows)"

definition later :: "point \<Rightarrow> point \<Rightarrow> point" where
  "later latest current = (if js_less (time latest) (time current) then current else latest)"

definition noBaselineWarning :: "string \<Rightarrow> string" where
  "noBaselineWarning diseaseName =
     ''No baseline survival data found for '' @ [CHR 0x22] @ diseaseName @ [CHR 0x22] @
     '' at or before '' @ ''10'' @ '' years. Assuming 100% survival.''"

definition baselineSurvival :: "host \<Rightarrow> row list \<Rightarrow> string \<Rightarrow> string \<Rightarrow> jsnum \<times> string list" where
  "baselineSurvival h rows code diseaseName =
     (let candidates = filter (\<lambda>p. js_le (time p) targetTime) (diseaseSurvivalData h rows code)
      in case candidates of
           [] \<Rightarrow> (Fin 1, [noBaselineWarning diseaseName])
         | first # others \<Rightarrow> (survival (foldl later first others), []))"

text \<open>Lines 390-394: the risk and its text.\<close>

definition predictedRiskOf :: "jsnum \<Rightarrow> jsnum \<Rightarrow> jsnum" where
  "predictedRiskOf linearPredictor baselineSurvivalProb =
     (let hazardRatio = js_exp linearPredictor;
          predictedSurvival = js_pow baselineSurvivalProb hazardRatio
      in js_sub (Fin 1) predictedSurvival)"

definition riskText :: "host \<Rightarrow> jsnum \<Rightarrow> string" where
  "riskText h predictedRisk = toFixed1 h (js_mul predictedRisk (Fin 100)) @ ''%''"

text \<open>\<open>calculateRisk\<close>: the form data, the selected disease and the page before, to how it
  ends and the page after.\<close>

definition calculateRisk ::
  "host \<Rightarrow> env \<Rightarrow> (string \<times> field) list \<Rightarrow> string \<Rightarrow> ui \<Rightarrow> exit \<times> ui" where
  "calculateRisk h e formData selectedDiseaseName u =
     (case parseForm h formData Map.empty of
        Inl key \<Rightarrow>
          (ReturnInvalidInput, u\<lparr>alerts := alerts u @ [invalidNumberMessage key]\<rparr>)
      | Inr parsed0 \<Rightarrow>
          (let u1 = u\<lparr>disease_name := selectedDiseaseName,
                       disease_risk := ''Calculating...'',
                       results_shown := True\<rparr>;
               parsed1 = encodeEthnicity parsed0;
               selectedDiseaseCode = propKey (getDiseaseCode selectedDiseaseName)
           in case resolvePercentiles h (percentileMap e) selectedDiseaseCode percentileVars parsed1 of
                Inl pVar \<Rightarrow>
                  (ReturnLookupFailed,
                   u1\<lparr>alerts := alerts u1 @ [lookupFailedMessage pVar],
                      console := console u1 @ [''Error looking up percentile for '' @ pVar @ '':'']\<rparr>)
              | Inr parsedData \<Rightarrow>
                  (let st = scalePanel h (panelScalerParams e) parsedData u1
                   in if scalingError st
                      then (ReturnScalingFailed, (scaling_ui st)\<lparr>disease_risk := ''--''\<rparr>)
                      else
                        (case coefficients e of
                           [] \<Rightarrow> (ThrowTypeError, scaling_ui st)
                         | r # _ \<Rightarrow>
                             (let linearPredictor =
                                    linearPredictorOf h (coefficients e) (featureColumnName r)
                                      selectedDiseaseCode (scaledData st) parsedData;
                                  b = baselineSurvival h (baselineSurvivals e) selectedDiseaseCode
                                        selectedDiseaseName;
                                  predictedRisk = predictedRiskOf linearPredictor (fst b);
                                  u2 = scaling_ui st
                              in (ReturnDone,
                                  u2\<lparr>disease_risk := riskText h predictedRisk,
                                     console := console u2 @ snd b\<rparr>))))))"

section \<open>Example data\<close>

text \<open>
  A host for the examples: \<open>parseFloat\<close> and the string-to-number conversion on the
  texts that the examples use (every other text in them is not a number), and the digits
  of twelve and a half.
\<close>

definition example_numbers :: "(string \<times> jsnum) list" where
  "example_numbers =
     [(''0'', Fin 0), (''1'', Fin 1), (''1.0'', Fin 1), (''5'', Fin 5), (''12'', Fin 12),
      (''15'', Fin 15), (''50'', Fin 50), (''12.5'', Fin (25 / 2)),
      (''0.98'', Fin (98 / 100)), (''0.90'', Fin (9 / 10)), (''0.80'', Fin (8 / 10)),
      (''Infinity'', PInf)]"

definition example_host :: host where
  "example_host =
     \<lparr>parseFloat = (\<lambda>s. case map_of example_numbers s of None \<Rightarrow> NaN | Some v \<Rightarrow> v),
      toNumber = (\<lambda>s. case map_of example_numbers s of None \<Rightarrow> NaN | Some v \<Rightarrow> v),
      finiteToString = (\<lambda>x. if x = 25 / 2 then ''12.5'' else [])\<rparr>"

text \<open>
  Reference tables: survival curves for two diseases (the curve of \<open>cad\<close> has the
  points at 0, 5 and 12 years, the curve of \<open>stroke\<close> the point at 15 years only),
  coefficients, scaler parameters with mean 0 and variance 1, and the median of the four
  scores for \<open>cad\<close> and of three of them for \<open>stroke\<close>.
\<close>

definition example_survivals :: "row list" where
  "example_survivals =
     [[(''Time'', ''0''), (''cad'', ''1.0''), (''stroke'', ''NA'')],
      [(''Time'', ''5''), (''cad'', ''0.98''), (''stroke'', ''NA'')],
      [(''Time'', ''12''), (''cad'', ''0.90''), (''stroke'', ''NA'')],
      [(''Time'', ''15''), (''cad'', ''NA''), (''stroke'', ''0.80'')]]"

definition example_coefficients :: "row list" where
  "example_coefficients =
     [[(''feature'', ''age''), (''cad'', ''0''), (''stroke'', ''NA'')],
      [(''feature'', ''male_1.0''), (''cad'', ''0''), (''stroke'', ''0'')],
      [(''feature'', ''prs''), (''cad'', ''NA''), (''stroke'', ''0'')]]"

definition example_scaler :: "row list" where
  "example_scaler =
     map (\<lambda>v. [(''feature'', v), (''mean'', ''0''), (''variance'', ''1'')]) panelVars"

definition example_percentiles :: "row list" where
  "example_percentiles =
     [[(''outcome'', ''cad''), (''score'', ''townsend''), (''p50'', ''0'')],
      [(''outcome'', ''cad''), (''score'', ''prs''), (''p50'', ''0'')],
      [(''outcome'', ''cad''), (''score'', ''metscore''), (''p50'', ''0'')],
      [(''outcome'', ''cad''), (''score'', ''proscore''), (''p50'', ''0'')],
      [(''outcome'', ''stroke''), (''score'', ''townsend''), (''p50'', ''0'')],
      [(''outcome'', ''stroke''), (''score'', ''prs''), (''p50'', ''0'')],
      [(''outcome'', ''stroke''), (''score'', ''metscore''), (''p50'', ''0'')]]"

definition example_env :: env where
  "example_env =
     \<lparr>baselineSurvivals = example_survivals,
      coefficients = example_coefficients,
      panelScalerParams = example_scaler,
      percentileMap = preparePercentilesData example_host example_percentiles Map.empty\<rparr>"

text \<open>A filled form, and the page before the first calculation.\<close>

definition example_form :: "(string \<times> field) list" where
  "example_form =
     map (\<lambda>v. (v, Text ''1'')) panelVars @
     map (\<lambda>v. (v, Text ''50'')) percentileVars @
     [(''male_1.0'', Number (Fin 1)), (''ethnicity'', Number (Fin 2)),
      (''current_smoking_1.0'', Number (Fin 0))]"

definition example_ui :: ui where
  "example_ui =
     \<lparr>disease_name = [], disease_risk = ''--'', results_shown = False, alerts = [], console = []\<rparr>"

text \<open>The form with another text in one field.\<close>

definition with_field :: "string \<Rightarrow> string \<Rightarrow> (string \<times> field) list \<Rightarrow> (string \<times> field) list" where
  "with_field key s formData = map (\<lambda>kv. if fst kv = key then (key, Text s) else kv) formData"

section \<open>Properties of the model names\<close>

lemma split_plus_not_Nil: "split_plus s \<noteq> []"
  by (induction s) (auto split: list.splits)

lemma split_plus_no_plus: "CHR ''+'' \<notin> set s \<Longrightarrow> split_plus s = [s]"
  by (induction s) auto

lemma split_plus_parts: "p \<in> set (split_plus s) \<Longrightarrow> CHR ''+'' \<notin> set p"
  by (induction s arbitrary: p) (auto split: list.splits if_splits)

lemma split_plus_append: "split_plus (a @ CHR ''+'' # b) = split_plus a @ split_plus b"
  by (induction a) (auto split: list.splits simp: split_plus_not_Nil)

lemma split_plus_append_no_plus: "CHR ''+'' \<notin> set a \<Longrightarrow> split_plus (a @ CHR ''+'' # b) = a # split_plus b"
  by (simp add: split_plus_append split_plus_no_plus)

lemma join_plus_Cons: "ps \<noteq> [] \<Longrightarrow> join_plus (p # ps) = p @ CHR ''+'' # join_plus ps"
  by (cases ps) auto

lemma join_split: "join_plus (split_plus s) = s"
proof (induction s)
  case Nil
  show ?case by simp
next
  case (Cons c cs)
  show ?case
  proof (cases "c = CHR ''+''")
    case True
    then show ?thesis using Cons by (simp add: join_plus_Cons split_plus_not_Nil)
  next
    case False
    obtain p ps where sp: "split_plus cs = p # ps"
      using split_plus_not_Nil [of cs] by (cases "split_plus cs") auto
    with Cons False show ?thesis by (cases ps) auto
  qed
qed

lemma split_join: "ps \<noteq> [] \<Longrightarrow> \<forall>p \<in> set ps. CHR ''+'' \<notin> set p \<Longrightarrow> split_plus (join_plus ps) = ps"
proof (induction ps rule: join_plus.induct)
  case 1
  then show ?case by simp
next
  case (2 p)
  then show ?case by (simp add: split_plus_no_plus)
next
  case (3 p q ps)
  then show ?case by (simp add: split_plus_append_no_plus)
qed

lemma split_canonicalize:
  "split_plus (canonicalizeModelName x) = hd (split_plus x) # sort_key (indexOf omicsOrder) (tl (split_plus x))"
proof (cases "CHR ''+'' \<in> set x")
  case False
  then show ?thesis by (simp add: canonicalizeModelName_def split_plus_no_plus)
next
  case True
  then have ne: "x \<noteq> []" by auto
  have parts: "\<forall>p \<in> set (hd (split_plus x) # sort_key (indexOf omicsOrder) (tl (split_plus x))). CHR ''+'' \<notin> set p"
    using split_plus_parts [of _ x] split_plus_not_Nil [of x]
    by (cases "split_plus x") auto
  show ?thesis using True ne parts
    by (simp add: canonicalizeModelName_def Let_def split_join)
qed

lemma canonicalize_join_split:
  "canonicalizeModelName x = join_plus (hd (split_plus x) # sort_key (indexOf omicsOrder) (tl (split_plus x)))"
proof (cases "CHR ''+'' \<in> set x")
  case False
  then show ?thesis by (simp add: canonicalizeModelName_def split_plus_no_plus)
next
  case True
  then show ?thesis by (auto simp add: canonicalizeModelName_def Let_def)
qed

lemma canonicalize_idem: "canonicalizeModelName (canonicalizeModelName x) = canonicalizeModelName x"
  by (simp add: canonicalize_join_split [of "canonicalizeModelName x"] split_canonicalize
       sort_key_id_if_sorted canonicalize_join_split [of x, symmetric])

lemma indexOf_ge: "- 1 \<le> indexOf xs a"
  by (induction xs) (auto simp: Let_def)

lemma indexOf_neg_iff: "indexOf xs a = - 1 \<longleftrightarrow> a \<notin> set xs"
proof (induction xs)
  case Nil
  show ?case by simp
next
  case (Cons x xs)
  have "- 1 \<le> indexOf xs a" by (rule indexOf_ge)
  with Cons show ?case by (auto simp: Let_def)
qed

lemma indexOf_inj: "a \<in> set xs \<Longrightarrow> indexOf xs a = indexOf xs b \<Longrightarrow> a = b"
proof (induction xs)
  case Nil
  then show ?case by simp
next
  case (Cons x xs)
  have g: "- 1 \<le> indexOf xs a" "- 1 \<le> indexOf xs b" by (rule indexOf_ge)+
  show ?case
  proof (cases "x = a")
    case True
    with Cons.prems g show ?thesis by (auto simp: Let_def split: if_splits)
  next
    case False
    with Cons.prems have "a \<in> set xs" by simp
    moreover from this have "indexOf xs a \<noteq> - 1" by (simp add: indexOf_neg_iff)
    ultimately show ?thesis using Cons False g
      by (auto simp: Let_def split: if_splits)
  qed
qed

lemma sort_key_unknown_first:
  fixes f :: "'a \<Rightarrow> int"
  assumes lb: "\<And>x. m \<le> f x"
  shows "sort_key f xs = filter (\<lambda>x. f x = m) xs @ sort_key f (filter (\<lambda>x. f x \<noteq> m) xs)"
proof (rule properties_for_sort_key)
  show "mset (filter (\<lambda>x. f x = m) xs @ sort_key f (filter (\<lambda>x. f x \<noteq> m) xs)) = mset xs"
    by simp
next
  show "sorted (map f (filter (\<lambda>x. f x = m) xs @ sort_key f (filter (\<lambda>x. f x \<noteq> m) xs)))"
    using lb sorted_map_same [of f "\<lambda>_. m" xs] by (auto simp: sorted_append)
next
  fix k
  have st: "filter (\<lambda>x. f k = f x) (sort_key f (filter (\<lambda>x. f x \<noteq> m) xs))
          = filter (\<lambda>x. f k = f x) (filter (\<lambda>x. f x \<noteq> m) xs)"
    using sort_key_stable [of f "f k" "filter (\<lambda>x. f x \<noteq> m) xs"]
    by (simp add: eq_commute [of "f k"])
  have "filter (\<lambda>x. f k = f x) (filter (\<lambda>x. f x = m) xs) @
        filter (\<lambda>x. f k = f x) (filter (\<lambda>x. f x \<noteq> m) xs) = filter (\<lambda>x. f k = f x) xs"
    by (induction xs) auto
  then show "filter (\<lambda>x. f k = f x) (filter (\<lambda>x. f x = m) xs @ sort_key f (filter (\<lambda>x. f x \<noteq> m) xs))
      = filter (\<lambda>x. f k = f x) xs"
    unfolding filter_append st .
qed

lemma omicsOrder_no_plus: "a \<in> set omicsOrder \<Longrightarrow> CHR ''+'' \<notin> set a"
  by (auto simp: omicsOrder_def)

lemma split_join_base:
  "\<forall>p \<in> set xs. CHR ''+'' \<notin> set p \<Longrightarrow> split_plus (join_plus (base # xs)) = split_plus base @ xs"
proof (induction xs arbitrary: base)
  case Nil
  show ?case by simp
next
  case (Cons x xs)
  then have "split_plus (join_plus (x # xs)) = split_plus x @ xs" by simp
  with Cons.prems show ?case by (simp add: split_plus_append split_plus_no_plus)
qed

lemma canonicalize_join:
  assumes "\<forall>p \<in> set xs. CHR ''+'' \<notin> set p"
  shows "canonicalizeModelName (join_plus (base # xs)) =
         join_plus (hd (split_plus base) # sort_key (indexOf omicsOrder) (tl (split_plus base) @ xs))"
  using assms split_plus_not_Nil [of base]
  by (simp add: canonicalize_join_split split_join_base)

lemma same_key_list_eq:
  assumes "mset us = mset vs" and "\<forall>x \<in> set us. \<forall>y \<in> set us. x = y"
  shows "us = vs"
proof (cases us)
  case Nil
  with assms show ?thesis by simp
next
  case (Cons a as)
  have sets: "set vs = set us" using assms(1) by (rule mset_eq_setD [symmetric])
  have len: "length vs = length us" using assms(1) by (rule mset_eq_length [symmetric])
  have "\<forall>y \<in> set us. y = a" using assms(2) Cons by auto
  then have u: "replicate (length us) a = us" by (rule replicate_length_same)
  have "\<forall>y \<in> set vs. y = a" using assms(2) Cons sets by auto
  then have v: "replicate (length vs) a = vs" by (rule replicate_length_same)
  have "us = replicate (length us) a" by (rule u [symmetric])
  also have "\<dots> = replicate (length vs) a" by (simp only: len)
  also have "\<dots> = vs" by (rule v)
  finally show ?thesis .
qed

lemma filter_key_perm:
  assumes "mset xs = mset ys" and "inj_on f (set xs)"
  shows "filter (\<lambda>x. c = f x) xs = filter (\<lambda>x. c = f x) ys"
proof (rule same_key_list_eq)
  show "mset (filter (\<lambda>x. c = f x) xs) = mset (filter (\<lambda>x. c = f x) ys)"
    using assms(1) by simp
  show "\<forall>x \<in> set (filter (\<lambda>x. c = f x) xs). \<forall>y \<in> set (filter (\<lambda>x. c = f x) xs). x = y"
    using assms(2) by (auto dest: inj_onD)
qed

lemma sort_key_perm_tail:
  fixes f :: "'a \<Rightarrow> int"
  assumes "mset xs = mset ys" and "inj_on f (set xs)"
  shows "sort_key f (bs @ xs) = sort_key f (bs @ ys)"
proof (rule properties_for_sort_key)
  show "mset (sort_key f (bs @ ys)) = mset (bs @ xs)" using assms(1) by simp
  show "sorted (map f (sort_key f (bs @ ys)))" by (rule sorted_sort_key)
  fix k
  have "filter (\<lambda>x. f k = f x) (sort_key f (bs @ ys)) = filter (\<lambda>x. f k = f x) (bs @ ys)"
    using sort_key_stable [of f "f k" "bs @ ys"] by (simp add: eq_commute [of "f k"])
  also have "\<dots> = filter (\<lambda>x. f k = f x) (bs @ xs)"
    using filter_key_perm [OF assms, of "f k"] by simp
  finally show "filter (\<lambda>x. f k = f x) (sort_key f (bs @ ys)) = filter (\<lambda>x. f k = f x) (bs @ xs)" .
qed

lemma indexOf_inj_on: "inj_on (indexOf zs) (set zs)"
  by (rule inj_onI) (rule indexOf_inj)

lemma sorted_indexOf_omicsOrder: "sorted (map (indexOf omicsOrder) omicsOrder)"
  by (simp add: omicsOrder_def)

lemma sort_key_priority:
  assumes "distinct xs" and "set xs \<subseteq> set omicsOrder"
  shows "sort_key (indexOf omicsOrder) xs = filter (\<lambda>a. a \<in> set xs) omicsOrder"
proof (rule sort_key_inj_key_eq)
  have "distinct omicsOrder" by (simp add: omicsOrder_def)
  then have "distinct (filter (\<lambda>a. a \<in> set xs) omicsOrder)" by simp
  moreover have "set xs = set (filter (\<lambda>a. a \<in> set xs) omicsOrder)" using assms(2) by auto
  ultimately show "mset xs = mset (filter (\<lambda>a. a \<in> set xs) omicsOrder)"
    using assms(1) set_eq_iff_mset_eq_distinct by blast
  show "inj_on (indexOf omicsOrder) (set xs)"
    using indexOf_inj_on [of omicsOrder] assms(2) by (rule inj_on_subset)
  show "sorted (map (indexOf omicsOrder) (filter (\<lambda>a. a \<in> set xs) omicsOrder))"
    using sorted_indexOf_omicsOrder by (rule sorted_filter)
qed

text \<open>
  Claim C6. Two names with the same base and the same set of add-ons from the priority
  list, in any two orders, have the same canonical name, whose components after the first
  are in priority order; when the base is one component, that name is the base followed by
  the add-ons in the order PRS, MetScore, ProScore; and
  \<open>Clin+ProScore+PRS\<close> and \<open>Clin+PRS+ProScore\<close> have the same canonical name.
\<close>

theorem canonicalize_order_invariant:
  assumes "distinct xs" and "distinct ys" and "set xs = set ys" and "set xs \<subseteq> set omicsOrder"
  shows "canonicalizeModelName (join_plus (base # xs)) = canonicalizeModelName (join_plus (base # ys))
       \<and> sorted (map (indexOf omicsOrder)
             (tl (split_plus (canonicalizeModelName (join_plus (base # xs))))))
       \<and> (CHR ''+'' \<notin> set base \<longrightarrow>
            canonicalizeModelName (join_plus (base # xs)) =
              join_plus (base # filter (\<lambda>a. a \<in> set xs) omicsOrder))
       \<and> canonicalizeModelName ''Clin+ProScore+PRS'' = canonicalizeModelName ''Clin+PRS+ProScore''"
proof -
  have m: "mset xs = mset ys" using assms(1-3) by (simp add: set_eq_iff_mset_eq_distinct)
  have inj: "inj_on (indexOf omicsOrder) (set xs)"
    using indexOf_inj_on [of omicsOrder] assms(4) by (rule inj_on_subset)
  have px: "\<forall>p \<in> set xs. CHR ''+'' \<notin> set p" using assms(4) omicsOrder_no_plus by blast
  have py: "\<forall>p \<in> set ys. CHR ''+'' \<notin> set p" using assms(3,4) omicsOrder_no_plus by blast
  have 1: "canonicalizeModelName (join_plus (base # xs)) = canonicalizeModelName (join_plus (base # ys))"
    by (simp add: canonicalize_join px py sort_key_perm_tail [OF m inj])
  have 2: "CHR ''+'' \<notin> set base \<longrightarrow> canonicalizeModelName (join_plus (base # xs)) =
              join_plus (base # filter (\<lambda>a. a \<in> set xs) omicsOrder)"
    by (simp add: canonicalize_join px split_plus_no_plus sort_key_priority assms(1,4))
  have 3: "canonicalizeModelName ''Clin+ProScore+PRS'' = canonicalizeModelName ''Clin+PRS+ProScore''"
    by (simp add: canonicalizeModelName_def omicsOrder_def)
  have 4: "sorted (map (indexOf omicsOrder)
             (tl (split_plus (canonicalizeModelName (join_plus (base # xs))))))"
    by (simp add: split_canonicalize)
  from 1 4 2 3 show ?thesis by blast
qed

text \<open>Claim C6 at the base \<open>PANEL\<close> with all three add-ons in two orders.\<close>

theorem canonicalize_order_invariant_witness:
  "canonicalizeModelName (join_plus [''PANEL'', ''ProScore'', ''PRS'', ''MetScore''])
     = canonicalizeModelName (join_plus [''PANEL'', ''MetScore'', ''ProScore'', ''PRS''])
   \<and> canonicalizeModelName (join_plus [''PANEL'', ''ProScore'', ''PRS'', ''MetScore''])
     = ''PANEL+PRS+MetScore+ProScore''"
proof -
  have "set [''ProScore'', ''PRS'', ''MetScore''] = set [''MetScore'', ''ProScore'', ''PRS'']"
    by auto
  moreover have "set [''ProScore'', ''PRS'', ''MetScore''] \<subseteq> set omicsOrder"
    by (simp add: omicsOrder_def)
  moreover have "distinct [''ProScore'', ''PRS'', ''MetScore'']" "distinct [''MetScore'', ''ProScore'', ''PRS'']"
    by simp_all
  ultimately have t: "canonicalizeModelName (join_plus (''PANEL'' # [''ProScore'', ''PRS'', ''MetScore'']))
      = canonicalizeModelName (join_plus (''PANEL'' # [''MetScore'', ''ProScore'', ''PRS'']))
    \<and> sorted (map (indexOf omicsOrder)
          (tl (split_plus (canonicalizeModelName
             (join_plus (''PANEL'' # [''ProScore'', ''PRS'', ''MetScore'']))))))
    \<and> (CHR ''+'' \<notin> set ''PANEL'' \<longrightarrow>
         canonicalizeModelName (join_plus (''PANEL'' # [''ProScore'', ''PRS'', ''MetScore''])) =
         join_plus (''PANEL'' # filter (\<lambda>a. a \<in> set [''ProScore'', ''PRS'', ''MetScore'']) omicsOrder))
    \<and> canonicalizeModelName ''Clin+ProScore+PRS'' = canonicalizeModelName ''Clin+PRS+ProScore''"
    using canonicalize_order_invariant by blast
  have np: "CHR ''+'' \<notin> set ''PANEL''" by simp
  from t have a: "canonicalizeModelName (join_plus [''PANEL'', ''ProScore'', ''PRS'', ''MetScore''])
     = canonicalizeModelName (join_plus [''PANEL'', ''MetScore'', ''ProScore'', ''PRS''])"
    by (rule conjunct1)
  from t np have b: "canonicalizeModelName (join_plus [''PANEL'', ''ProScore'', ''PRS'', ''MetScore'']) =
         join_plus (''PANEL'' # filter (\<lambda>a. a \<in> set [''ProScore'', ''PRS'', ''MetScore'']) omicsOrder)"
    by blast
  have c: "join_plus (''PANEL'' # filter (\<lambda>a. a \<in> set [''ProScore'', ''PRS'', ''MetScore'']) omicsOrder)
      = ''PANEL+PRS+MetScore+ProScore''"
    by (simp add: omicsOrder_def)
  from b c have d: "canonicalizeModelName (join_plus [''PANEL'', ''ProScore'', ''PRS'', ''MetScore''])
      = ''PANEL+PRS+MetScore+ProScore''" by (rule trans)
  from a d show ?thesis by (rule conjI)
qed

text \<open>
  Claim C7. Canonicalising a canonical name changes nothing, for every string.
\<close>

theorem canonicalize_idempotent:
  "canonicalizeModelName (canonicalizeModelName x) = canonicalizeModelName x"
  by (rule canonicalize_idem)

text \<open>
  Claim C10. For every string, the components of the canonical name are the components of
  the name (as a multiset: none is dropped), the first component stays first, a name
  without \<open>+\<close> is returned as it is, and after the first component come the
  components that are not in the priority list, in their order in the name, followed by
  those of the priority list in priority order.
\<close>

theorem canonicalize_components:
  "mset (split_plus (canonicalizeModelName x)) = mset (split_plus x)
   \<and> hd (split_plus (canonicalizeModelName x)) = hd (split_plus x)
   \<and> (CHR ''+'' \<notin> set x \<longrightarrow> canonicalizeModelName x = x)
   \<and> tl (split_plus (canonicalizeModelName x)) =
       filter (\<lambda>c. c \<notin> set omicsOrder) (tl (split_plus x)) @
       sort_key (indexOf omicsOrder) (filter (\<lambda>c. c \<in> set omicsOrder) (tl (split_plus x)))"
proof -
  obtain p ps where sp: "split_plus x = p # ps"
    using split_plus_not_Nil [of x] by (cases "split_plus x") auto
  have 1: "mset (split_plus (canonicalizeModelName x)) = mset (split_plus x)"
    by (simp add: split_canonicalize sp)
  have 2: "hd (split_plus (canonicalizeModelName x)) = hd (split_plus x)"
    by (simp add: split_canonicalize)
  have 3: "CHR ''+'' \<notin> set x \<longrightarrow> canonicalizeModelName x = x"
    by (simp add: canonicalizeModelName_def)
  have "tl (split_plus (canonicalizeModelName x)) = sort_key (indexOf omicsOrder) (tl (split_plus x))"
    by (simp add: split_canonicalize)
  also have "\<dots> = filter (\<lambda>c. indexOf omicsOrder c = - 1) (tl (split_plus x)) @
       sort_key (indexOf omicsOrder) (filter (\<lambda>c. indexOf omicsOrder c \<noteq> - 1) (tl (split_plus x)))"
    by (rule sort_key_unknown_first) (rule indexOf_ge)
  finally have 4: "tl (split_plus (canonicalizeModelName x)) =
       filter (\<lambda>c. c \<notin> set omicsOrder) (tl (split_plus x)) @
       sort_key (indexOf omicsOrder) (filter (\<lambda>c. c \<in> set omicsOrder) (tl (split_plus x)))"
    by (simp add: indexOf_neg_iff)
  from 1 2 3 4 show ?thesis by blast
qed

text \<open>Claim C10 at a name without \<open>+\<close> and at a name with two unknown add-ons.\<close>

theorem canonicalize_components_witness:
  "canonicalizeModelName ''PANEL'' = ''PANEL''
   \<and> canonicalizeModelName ''Clin+ProScore+Foo+PRS+Bar'' = ''Clin+Foo+Bar+PRS+ProScore''
   \<and> tl (split_plus (canonicalizeModelName ''Clin+ProScore+Foo+PRS+Bar'')) = [''Foo'', ''Bar''] @ [''PRS'', ''ProScore'']"
proof -
  have a: "canonicalizeModelName ''PANEL'' = ''PANEL''"
    using canonicalize_components [of "''PANEL''"] by simp
  have b: "tl (split_plus (canonicalizeModelName ''Clin+ProScore+Foo+PRS+Bar'')) = [''Foo'', ''Bar''] @ [''PRS'', ''ProScore'']"
    using canonicalize_components [of "''Clin+ProScore+Foo+PRS+Bar''"]
    by (simp add: omicsOrder_def)
  have c: "canonicalizeModelName ''Clin+ProScore+Foo+PRS+Bar'' = ''Clin+Foo+Bar+PRS+ProScore''"
    by (simp add: canonicalizeModelName_def omicsOrder_def)
  from a b c show ?thesis by blast
qed

lemma sint_exp_32:
  assumes "j < 31"
  shows "sint (2 ^ j :: 32 word) = 2 ^ j"
proof -
  have lt: "(2::int) ^ j < 2 ^ 31" using assms by (intro power_strict_increasing) auto
  have "uint (2 ^ j :: 32 word) = 2 ^ j"
    using assms by (simp add: uint_2p word_neq_0_conv [symmetric])
  then have "sint (2 ^ j :: 32 word) = signed_take_bit 31 ((2::int) ^ j)"
    by (simp add: sint_uint)
  also have "\<dots> = 2 ^ j"
    using lt by (intro signed_take_bit_int_eq_self) (auto intro: order_trans [of _ 0])
  finally show ?thesis .
qed

lemma shl1_small: "n < 31 \<Longrightarrow> shl1 n = 2 ^ n"
  by (simp add: shl1_def sint_exp_32 push_bit_of_1)

lemma bit_selected_bit:
  assumes "j < 31"
  shows "bit_selected i j = bit i j"
proof (cases "bit i j")
  case False
  then have "\<not> bit (word_of_nat i :: 32 word) j" by (simp add: bit_of_nat_iff)
  then have "(word_of_nat i :: 32 word) AND push_bit j 1 = 0"
    by (simp add: bit_iff_and_push_bit_not_eq_0)
  with False assms show ?thesis by (simp add: bit_selected_def)
next
  case True
  have "(word_of_nat i :: 32 word) AND push_bit j 1 = push_bit j 1"
  proof (rule bit_word_eqI)
    fix k assume "k < LENGTH(32)"
    then show "bit ((word_of_nat i :: 32 word) AND push_bit j 1) k = bit (push_bit j 1 :: 32 word) k"
      using True assms by (auto simp: bit_and_iff bit_push_bit_iff bit_of_nat_iff bit_1_iff bit_exp_iff)
  qed
  with True assms show ?thesis by (simp add: bit_selected_def sint_exp_32 push_bit_of_1)
qed

lemma filter_upt_Suc: "filter P [0..<Suc n] = (if P 0 then [0] else []) @ map Suc (filter (P \<circ> Suc) [0..<n])"
proof -
  have "[0..<Suc n] = 0 # map Suc [0..<n]" by (simp add: map_Suc_upt upt_conv_Cons)
  then show ?thesis by (simp add: filter_map del: upt_Suc)
qed

lemma bits_Cons:
  "map (\<lambda>j. (x # xs) ! j) (filter (bit i) [0..<Suc (length xs)])
     = (if odd i then [x] else []) @ map (\<lambda>j. xs ! j) (filter (bit (i div 2)) [0..<length xs])"
  by (simp add: filter_upt_Suc bit_0 comp_def bit_Suc del: upt_Suc)

lemma bits_set:
  "(\<lambda>i::nat. map (\<lambda>j. xs ! j) (filter (bit i) [0..<length xs])) ` {..< 2 ^ length xs} = set (subseqs xs)"
proof (induction xs)
  case Nil
  show ?case by auto
next
  case (Cons x xs)
  let ?m = "\<lambda>xs (i::nat). map (\<lambda>j. xs ! j) (filter (bit i) [0..<length xs])"
  have step: "?m (x # xs) i = (if odd i then [x] else []) @ ?m xs (i div 2)" for i :: nat
    using bits_Cons [of x xs i] by simp
  have "?m (x # xs) ` {..< 2 ^ length (x # xs)} = (#) x ` set (subseqs xs) \<union> set (subseqs xs)"
  proof (intro equalityI subsetI)
    fix s assume "s \<in> ?m (x # xs) ` {..< 2 ^ length (x # xs)}"
    then obtain i where i: "i < 2 * (2::nat) ^ length xs" and s: "s = ?m (x # xs) i" by auto
    from i have "i div 2 < 2 ^ length xs" by simp
    then have "?m xs (i div 2) \<in> set (subseqs xs)" using Cons.IH by blast
    then show "s \<in> (#) x ` set (subseqs xs) \<union> set (subseqs xs)"
      unfolding s step by (cases "odd i") auto
  next
    fix s assume "s \<in> (#) x ` set (subseqs xs) \<union> set (subseqs xs)"
    then consider t where "s = x # t" "t \<in> set (subseqs xs)" | "s \<in> set (subseqs xs)" by auto
    then show "s \<in> ?m (x # xs) ` {..< 2 ^ length (x # xs)}"
    proof cases
      case 1
      then obtain k where k: "k < (2::nat) ^ length xs" "t = ?m xs k" using Cons.IH by blast
      have "?m (x # xs) (2 * k + 1) = s" unfolding step using 1 k by simp
      moreover have "2 * k + 1 < 2 ^ length (x # xs)" using k by simp
      ultimately show ?thesis by blast
    next
      case 2
      then obtain k where k: "k < (2::nat) ^ length xs" "s = ?m xs k" using Cons.IH by blast
      have "?m (x # xs) (2 * k) = s" unfolding step using k by simp
      moreover have "2 * k < 2 ^ length (x # xs)" using k by simp
      ultimately show ?thesis by blast
    qed
  qed
  then show ?case by (simp add: Let_def)
qed

lemma subset_of_mask_bits:
  assumes "length xs \<le> 31"
  shows "subset_of_mask xs i = map (\<lambda>j. xs ! j) (filter (bit i) [0..<length xs])"
proof -
  have "filter (bit_selected i) [0..<length xs] = filter (bit i) [0..<length xs]"
    using assms by (intro filter_cong) (auto simp: bit_selected_bit)
  then show ?thesis by (simp add: subset_of_mask_def)
qed

lemma set_subset_of_mask:
  assumes "length xs \<le> 30"
  shows "(subset_of_mask xs) ` {..< 2 ^ length xs} = set (subseqs xs)"
proof -
  have "subset_of_mask xs = (\<lambda>i. map (\<lambda>j. xs ! j) (filter (bit i) [0..<length xs]))"
    using assms by (intro ext subset_of_mask_bits) simp
  then show ?thesis by (simp add: bits_set)
qed

lemma generateModelCombinations_map:
  assumes "base \<noteq> []" and "length xs \<le> 30"
  shows "generateModelCombinations base xs =
         map (\<lambda>i. canonicalizeModelName (join_plus (base # subset_of_mask xs i))) [0 ..< 2 ^ length xs]"
proof -
  have "shl1 (length xs) = 2 ^ length xs" using assms(2) by (intro shl1_small) simp
  then have "nat (shl1 (length xs)) = 2 ^ length xs" by (simp add: nat_power_eq)
  with assms(1) show ?thesis by (simp only: generateModelCombinations_def if_False)
qed

lemma canonical_name_mset:
  assumes "\<forall>p \<in> set s. CHR ''+'' \<notin> set p" and "\<forall>p \<in> set t. CHR ''+'' \<notin> set p"
    and "canonicalizeModelName (join_plus (base # s)) = canonicalizeModelName (join_plus (base # t))"
  shows "mset s = mset t"
proof -
  let ?f = "indexOf omicsOrder"
  let ?b = "tl (split_plus base)"
  have "split_plus (canonicalizeModelName (join_plus (base # s)))
      = split_plus (canonicalizeModelName (join_plus (base # t)))"
    using assms(3) by simp
  then have "sort_key ?f (?b @ s) = sort_key ?f (?b @ t)"
    using assms(1,2) split_plus_not_Nil [of base]
    by (simp add: split_canonicalize split_join_base)
  then have "mset (sort_key ?f (?b @ s)) = mset (sort_key ?f (?b @ t))" by simp
  then show ?thesis by simp
qed

lemma subseqs_subset: "s \<in> set (subseqs xs) \<Longrightarrow> set s \<subseteq> set xs"
  using subseqs_powset [of xs] by blast

lemma subseqs_mset_inj:
  assumes "distinct xs" and "s \<in> set (subseqs xs)" and "t \<in> set (subseqs xs)" and "mset s = mset t"
  shows "s = t"
proof -
  have "inj_on set (set (subseqs xs))"
    using distinct_set_subseqs [OF assms(1)] by (simp add: distinct_map)
  moreover have "set s = set t" using assms(4) by (rule mset_eq_setD)
  ultimately show ?thesis using assms(2,3) by (auto dest: inj_onD)
qed

lemma distinct_subseqs: "distinct xs \<Longrightarrow> distinct (subseqs xs)"
  using distinct_set_subseqs [of xs] by (simp add: distinct_map)

lemma addons_length:
  assumes "distinct xs" and "set xs \<subseteq> set omicsOrder"
  shows "length xs \<le> 3"
proof -
  have "length xs = card (set xs)" using assms(1) by (simp add: distinct_card)
  also have "\<dots> \<le> card (set omicsOrder)" using assms(2) by (intro card_mono) auto
  also have "\<dots> \<le> 3" by (simp add: omicsOrder_def card_insert_if)
  finally show ?thesis .
qed

text \<open>
  For a non-empty base and \<open>n\<close> distinct add-ons of the priority list,
  \<open>generateModelCombinations\<close> returns \<open>2^n\<close> names, all distinct and all canonical:
  the canonical names of the base joined with each sublist of the add-ons.
\<close>

lemma generateModelCombinations_subsets:
  assumes "base \<noteq> []" and "distinct addons" and "set addons \<subseteq> set omicsOrder"
  shows "length (generateModelCombinations base addons) = 2 ^ length addons
       \<and> distinct (generateModelCombinations base addons)
       \<and> set (generateModelCombinations base addons)
           = (\<lambda>s. canonicalizeModelName (join_plus (base # s))) ` set (subseqs addons)
       \<and> (\<forall>m \<in> set (generateModelCombinations base addons). canonicalizeModelName m = m)
       \<and> canonicalizeModelName base \<in> set (generateModelCombinations base addons)
       \<and> (CHR ''+'' \<notin> set base \<longrightarrow> base \<in> set (generateModelCombinations base addons))
       \<and> (length addons = 3 \<longrightarrow> length (generateModelCombinations base addons) = 8)"
proof -
  let ?name = "\<lambda>s. canonicalizeModelName (join_plus (base # s))"
  let ?g = "generateModelCombinations base addons"
  have n3: "length addons \<le> 3" using assms(2,3) by (rule addons_length)
  then have n30: "length addons \<le> 30" by simp
  have g: "?g = map (\<lambda>i. ?name (subset_of_mask addons i)) [0 ..< 2 ^ length addons]"
    using assms(1) n30 by (rule generateModelCombinations_map)
  have len: "length ?g = 2 ^ length addons" by (simp add: g)
  have "set ?g = ?name ` (subset_of_mask addons ` {..< 2 ^ length addons})"
    by (simp add: g image_image atLeast0LessThan)
  then have st: "set ?g = ?name ` set (subseqs addons)"
    by (simp add: set_subset_of_mask [OF n30])
  have np: "\<forall>p \<in> set s. CHR ''+'' \<notin> set p" if "s \<in> set (subseqs addons)" for s
    using subseqs_subset [OF that] assms(3) omicsOrder_no_plus by blast
  have inj: "inj_on ?name (set (subseqs addons))"
  proof (rule inj_onI)
    fix s t assume s: "s \<in> set (subseqs addons)" and t: "t \<in> set (subseqs addons)"
      and eq: "?name s = ?name t"
    have "mset s = mset t" using np [OF s] np [OF t] eq by (rule canonical_name_mset)
    with assms(2) s t show "s = t" by (rule subseqs_mset_inj)
  qed
  have "card (set ?g) = card (set (subseqs addons))"
    unfolding st using inj by (rule card_image)
  also have "\<dots> = length (subseqs addons)"
    using distinct_subseqs [OF assms(2)] by (simp add: distinct_card)
  also have "\<dots> = length ?g" by (simp add: len length_subseqs)
  finally have dist: "distinct ?g" by (rule card_distinct)
  have canon: "\<forall>m \<in> set ?g. canonicalizeModelName m = m"
    unfolding st by (auto simp: canonicalize_idem)
  have "[] \<in> set (subseqs addons)" by (induction addons) (auto simp: Let_def)
  then have "?name [] \<in> set ?g" unfolding st by (rule imageI)
  then have b: "canonicalizeModelName base \<in> set ?g" by simp
  then have b': "CHR ''+'' \<notin> set base \<longrightarrow> base \<in> set ?g"
    by (auto simp: canonicalizeModelName_def)
  have e: "length addons = 3 \<longrightarrow> length ?g = 8" using len by simp
  from len dist st canon b b' e show ?thesis by blast
qed

text \<open>
  Claim C5. For every non-empty base model name (one component: no \<open>+\<close>) and every
  list of \<open>n\<close> distinct add-ons of the priority list, \<open>generateModelCombinations\<close>
  returns exactly \<open>2^n\<close> names, all distinct and all canonical, one for every sublist
  of the add-ons; one of them is the base alone. Three add-ons give exactly eight distinct
  names, one of which is the base.
\<close>

theorem generateModelCombinations_power_set:
  assumes "base \<noteq> []" and "CHR ''+'' \<notin> set base"
    and "distinct addons" and "set addons \<subseteq> set omicsOrder"
  shows "length (generateModelCombinations base addons) = 2 ^ length addons
       \<and> distinct (generateModelCombinations base addons)
       \<and> set (generateModelCombinations base addons)
           = (\<lambda>s. canonicalizeModelName (join_plus (base # s))) ` set (subseqs addons)
       \<and> (\<forall>m \<in> set (generateModelCombinations base addons). canonicalizeModelName m = m)
       \<and> base \<in> set (generateModelCombinations base addons)
       \<and> (length addons = 3 \<longrightarrow>
            length (generateModelCombinations base addons) = 8
            \<and> distinct (generateModelCombinations base addons)
            \<and> base \<in> set (generateModelCombinations base addons))"
proof -
  note g = generateModelCombinations_subsets [OF assms(1,3,4)]
  from g have len: "length (generateModelCombinations base addons) = 2 ^ length addons"
    by (rule conjunct1)
  from g have dist: "distinct (generateModelCombinations base addons)"
    by (elim conjE)
  from g have st: "set (generateModelCombinations base addons)
           = (\<lambda>s. canonicalizeModelName (join_plus (base # s))) ` set (subseqs addons)"
    by (elim conjE)
  from g have canon: "\<forall>m \<in> set (generateModelCombinations base addons). canonicalizeModelName m = m"
    by (elim conjE)
  from g have "CHR ''+'' \<notin> set base \<longrightarrow> base \<in> set (generateModelCombinations base addons)"
    by (elim conjE)
  with assms(2) have b: "base \<in> set (generateModelCombinations base addons)"
    by (rule rev_mp)
  from g have "length addons = 3 \<longrightarrow> length (generateModelCombinations base addons) = 8"
    by (elim conjE)
  with dist b have e: "length addons = 3 \<longrightarrow>
            length (generateModelCombinations base addons) = 8
            \<and> distinct (generateModelCombinations base addons)
            \<and> base \<in> set (generateModelCombinations base addons)"
    by (intro impI conjI) (erule mp, assumption)+
  from len dist st canon b e show ?thesis by (intro conjI)
qed

text \<open>Claim C5 at the base \<open>Clin\<close> with the three add-ons.\<close>

theorem generateModelCombinations_power_set_witness:
  "generateModelCombinations ''Clin'' [''ProScore'', ''PRS'', ''MetScore''] =
     [''Clin'', ''Clin+ProScore'', ''Clin+PRS'', ''Clin+PRS+ProScore'', ''Clin+MetScore'',
      ''Clin+MetScore+ProScore'', ''Clin+PRS+MetScore'', ''Clin+PRS+MetScore+ProScore'']
   \<and> length (generateModelCombinations ''Clin'' [''ProScore'', ''PRS'', ''MetScore'']) = 8
   \<and> distinct (generateModelCombinations ''Clin'' [''ProScore'', ''PRS'', ''MetScore''])
   \<and> ''Clin'' \<in> set (generateModelCombinations ''Clin'' [''ProScore'', ''PRS'', ''MetScore''])
   \<and> canonicalizeModelName ''Clin+PRS+ProScore'' = ''Clin+PRS+ProScore''"
proof -
  have h: "''Clin'' \<noteq> []" "CHR ''+'' \<notin> set ''Clin''"
    "distinct [''ProScore'', ''PRS'', ''MetScore'']"
    "set [''ProScore'', ''PRS'', ''MetScore''] \<subseteq> set omicsOrder"
    by (simp_all add: omicsOrder_def)
  note t = generateModelCombinations_power_set [OF h]
  have l3: "length [''ProScore'', ''PRS'', ''MetScore''] = 3" by simp
  from t l3 have a: "length (generateModelCombinations ''Clin'' [''ProScore'', ''PRS'', ''MetScore'']) = 8"
    by blast
  from t have b: "distinct (generateModelCombinations ''Clin'' [''ProScore'', ''PRS'', ''MetScore''])"
    by blast
  from t have c: "''Clin'' \<in> set (generateModelCombinations ''Clin'' [''ProScore'', ''PRS'', ''MetScore''])"
    by blast
  have d: "generateModelCombinations ''Clin'' [''ProScore'', ''PRS'', ''MetScore''] =
     [''Clin'', ''Clin+ProScore'', ''Clin+PRS'', ''Clin+PRS+ProScore'', ''Clin+MetScore'',
      ''Clin+MetScore+ProScore'', ''Clin+PRS+MetScore'', ''Clin+PRS+MetScore+ProScore'']"
    by code_simp
  have "''Clin+PRS+ProScore'' \<in> set (generateModelCombinations ''Clin'' [''ProScore'', ''PRS'', ''MetScore''])"
    unfolding d by simp
  with t have e: "canonicalizeModelName ''Clin+PRS+ProScore'' = ''Clin+PRS+ProScore''"
    by blast
  from d a b c e show ?thesis by blast
qed

section \<open>Evaluation of the examples\<close>

lemmas num_defs = isNaN_def js_sub_def inf_of_sign_def js_le_def numberToString_def toFixed1_def
  dec.simps startsWith_def odd_integer_def

lemmas data_defs = propKey_def parseFloat_cell_def diseaseMap_def friendlyVariableNames_def
  addPercentileValue_def addPercentileRow_def preparePercentilesData_def getDiseaseCode_def

lemmas calc_defs = text_of_def num_of_def fieldKey_def copied_raw_def friendlyName_def
  invalidNumberMessage_def encodeEthnicity_def percentileVars_def lookupPercentile_def
  lookupFailedMessage_def panelVars_def zeroStdLog_def zeroStdMessage_def missingParamsLog_def
  missingParamsMessage_def scaleVariable_def scalePanel_def featureColumnName_def
  diseaseCoefficients_def addTerm_def linearPredictorOf_def targetTime_def diseaseSurvivalData_def
  later_def noBaselineWarning_def baselineSurvival_def predictedRiskOf_def riskText_def
  calculateRisk_def

lemmas example_defs = example_numbers_def example_host_def example_survivals_def
  example_coefficients_def example_scaler_def example_percentiles_def example_env_def
  example_form_def example_ui_def with_field_def

text \<open>The example form and tables give a risk of two percent for coronary artery disease.\<close>

lemma example_run:
  "calculateRisk example_host example_env example_form ''Coronary artery disease'' example_ui =
     (ReturnDone,
      example_ui\<lparr>disease_name := ''Coronary artery disease'', disease_risk := ''2.0%'',
                 results_shown := True\<rparr>)"
  by (simp add: num_defs data_defs calc_defs example_defs Let_def)

section \<open>The linear predictor\<close>

lemma addTerm_NaN: "isNaN (coeff_value c) \<Longrightarrow> addTerm h scaled parsedData lp c = lp"
  by (simp add: addTerm_def Let_def)

lemma linearPredictorOf_skip:
  assumes "isNaN (parseFloat_cell h (map_of r code))"
  shows "linearPredictorOf h (pre @ r # post) fc code scaled parsedData
       = linearPredictorOf h (pre @ post) fc code scaled parsedData"
  using assms by (simp add: linearPredictorOf_def diseaseCoefficients_def addTerm_NaN)

text \<open>
  Claim C3. A coefficient row whose entry for the disease does not parse as a number
  (\<open>parseFloat\<close> gives \<open>NaN\<close>) leaves the linear predictor as it was, whatever the
  value of its feature: the sum over the table equals the sum over the table without the
  row. It is not an error either: with the row or without it (after the first row, which
  names the feature column), \<open>calculateRisk\<close> ends the same way with the same page.
\<close>

theorem non_numeric_coefficient_skipped:
  assumes "isNaN (parseFloat_cell h (map_of r code))"
  shows "addTerm h scaled parsedData lp
           \<lparr>variable = map_of r (propKey fc), coeff_value = parseFloat_cell h (map_of r code)\<rparr> = lp
       \<and> linearPredictorOf h (pre @ r # post) fc code scaled parsedData
           = linearPredictorOf h (pre @ post) fc code scaled parsedData
       \<and> (pre \<noteq> [] \<and> code = propKey (getDiseaseCode selectedDiseaseName) \<longrightarrow>
            calculateRisk h (e\<lparr>coefficients := pre @ r # post\<rparr>) formData selectedDiseaseName u
            = calculateRisk h (e\<lparr>coefficients := pre @ post\<rparr>) formData selectedDiseaseName u)"
proof -
  have 1: "addTerm h scaled parsedData lp
           \<lparr>variable = map_of r (propKey fc), coeff_value = parseFloat_cell h (map_of r code)\<rparr> = lp"
    using assms by (simp add: addTerm_NaN)
  have 2: "linearPredictorOf h (pre @ r # post) fc code scaled parsedData
           = linearPredictorOf h (pre @ post) fc code scaled parsedData"
    using assms by (rule linearPredictorOf_skip)
  have 3: "calculateRisk h (e\<lparr>coefficients := pre @ r # post\<rparr>) formData selectedDiseaseName u
            = calculateRisk h (e\<lparr>coefficients := pre @ post\<rparr>) formData selectedDiseaseName u"
    if ne: "pre \<noteq> []" and c: "code = propKey (getDiseaseCode selectedDiseaseName)"
  proof -
    obtain a as where pre: "pre = a # as" using ne by (cases pre) auto
    have skip: "linearPredictorOf h (a # as @ r # post) fc' code scaled' parsed'
           = linearPredictorOf h (a # as @ post) fc' code scaled' parsed'" for fc' scaled' parsed'
      using linearPredictorOf_skip [OF assms, of "a # as" post fc' scaled' parsed'] by simp
    show ?thesis
      unfolding calculateRisk_def pre c [symmetric]
      by (simp add: Let_def skip split: sum.split)
  qed
  from 1 2 3 show ?thesis by blast
qed

text \<open>
  Claim C3 on the example table, whose row for \<open>prs\<close> has the entry \<open>NA\<close> for
  \<open>cad\<close>: even with an infinite value of \<open>prs\<close> the linear predictor is 0 (a term
  \<open>0 * Infinity\<close> would have made it \<open>NaN\<close>).
\<close>

theorem non_numeric_coefficient_skipped_witness:
  "isNaN (parseFloat_cell example_host
            (map_of [(''feature'', ''prs''), (''cad'', ''NA''), (''stroke'', ''0'')] ''cad''))
   \<and> linearPredictorOf example_host example_coefficients (Some ''feature'') ''cad''
        [''prs'' \<mapsto> PInf] Map.empty
      = linearPredictorOf example_host (take 2 example_coefficients) (Some ''feature'') ''cad''
        [''prs'' \<mapsto> PInf] Map.empty
   \<and> linearPredictorOf example_host example_coefficients (Some ''feature'') ''cad''
        [''prs'' \<mapsto> PInf] Map.empty = Fin 0
   \<and> calculateRisk example_host example_env example_form ''Coronary artery disease'' example_ui
      = calculateRisk example_host (example_env\<lparr>coefficients := take 2 example_coefficients\<rparr>)
          example_form ''Coronary artery disease'' example_ui"
proof -
  let ?r = "[(''feature'', ''prs''), (''cad'', ''NA''), (''stroke'', ''0'')]"
  let ?rs1 = "take 2 example_coefficients"
  have h: "isNaN (parseFloat_cell example_host (map_of ?r ''cad''))"
    by (simp add: num_defs data_defs example_defs)
  have rows: "example_coefficients = ?rs1 @ ?r # []"
    by (simp add: example_coefficients_def)
  have ne: "?rs1 \<noteq> []" by (simp add: example_coefficients_def)
  have code: "''cad'' = propKey (getDiseaseCode ''Coronary artery disease'')"
    by (simp add: data_defs)
  have env: "example_env\<lparr>coefficients := ?rs1 @ ?r # []\<rparr> = example_env"
    unfolding rows [symmetric] by (simp add: example_env_def)
  note t = non_numeric_coefficient_skipped [OF h, where pre = ?rs1 and post = "[]"
      and fc = "Some ''feature''" and scaled = "[''prs'' \<mapsto> PInf]" and parsedData = Map.empty
      and selectedDiseaseName = "''Coronary artery disease''" and e = example_env
      and formData = example_form and u = example_ui]
  from t have a: "linearPredictorOf example_host (?rs1 @ ?r # []) (Some ''feature'') ''cad''
        [''prs'' \<mapsto> PInf] Map.empty
      = linearPredictorOf example_host (?rs1 @ []) (Some ''feature'') ''cad''
        [''prs'' \<mapsto> PInf] Map.empty" by blast
  from t ne code have b: "calculateRisk example_host (example_env\<lparr>coefficients := ?rs1 @ ?r # []\<rparr>)
        example_form ''Coronary artery disease'' example_ui
      = calculateRisk example_host (example_env\<lparr>coefficients := ?rs1 @ []\<rparr>)
        example_form ''Coronary artery disease'' example_ui" by blast
  have c: "linearPredictorOf example_host example_coefficients (Some ''feature'') ''cad''
        [''prs'' \<mapsto> PInf] Map.empty = Fin 0"
    by (simp add: num_defs data_defs calc_defs example_defs)
  from a have a': "linearPredictorOf example_host example_coefficients (Some ''feature'') ''cad''
        [''prs'' \<mapsto> PInf] Map.empty
      = linearPredictorOf example_host ?rs1 (Some ''feature'') ''cad''
        [''prs'' \<mapsto> PInf] Map.empty"
    unfolding rows [symmetric] by simp
  from b have b': "calculateRisk example_host example_env example_form ''Coronary artery disease'' example_ui
      = calculateRisk example_host (example_env\<lparr>coefficients := ?rs1\<rparr>)
          example_form ''Coronary artery disease'' example_ui"
    unfolding env by simp
  from h a' c b' show ?thesis by blast
qed

section \<open>The percentile lookup\<close>

lemma lookupPercentile_None_iff:
  "lookupPercentile pm code pVar rank = None \<longleftrightarrow>
     (pm code = None
      \<or> (\<exists>byScore. pm code = Some byScore \<and> byScore pVar = None)
      \<or> (\<exists>byScore byRank. pm code = Some byScore \<and> byScore pVar = Some byRank \<and> byRank rank = None))"
  by (auto simp: lookupPercentile_def split: option.splits)

lemma resolvePercentiles_Inr:
  assumes "resolvePercentiles h pm code vs p = Inr p'" and "distinct vs"
  shows "(\<forall>q \<in> set vs. \<exists>x. lookupPercentile pm code q (fieldKey h (p q)) = Some x
                          \<and> p' q = Some (Number x))
       \<and> (\<forall>k. k \<notin> set vs \<longrightarrow> p' k = p k)"
  using assms
proof (induction vs arbitrary: p)
  case Nil
  then show ?case by simp
next
  case (Cons v vs)
  from Cons.prems(1) obtain x where x: "lookupPercentile pm code v (fieldKey h (p v)) = Some x"
    and rest: "resolvePercentiles h pm code vs (p(v \<mapsto> Number x)) = Inr p'"
    by (auto split: option.splits)
  from Cons.prems(2) have d: "distinct vs" and nv: "v \<notin> set vs" by auto
  note ih = Cons.IH [OF rest d]
  from ih nv have pv: "p' v = Some (Number x)" by simp
  have "\<forall>q \<in> set vs. \<exists>y. lookupPercentile pm code q (fieldKey h (p q)) = Some y
                          \<and> p' q = Some (Number y)"
  proof
    fix q assume q: "q \<in> set vs"
    with nv have "q \<noteq> v" by auto
    with ih q show "\<exists>y. lookupPercentile pm code q (fieldKey h (p q)) = Some y
                          \<and> p' q = Some (Number y)" by auto
  qed
  moreover have "\<forall>k. k \<notin> set (v # vs) \<longrightarrow> p' k = p k" using ih by auto
  ultimately show ?case using x pv by auto
qed

lemma resolvePercentiles_Inl:
  assumes "resolvePercentiles h pm code vs p = Inl q" and "distinct vs"
  shows "q \<in> set vs \<and> lookupPercentile pm code q (fieldKey h (p q)) = None"
  using assms
proof (induction vs arbitrary: p)
  case Nil
  then show ?case by simp
next
  case (Cons v vs)
  show ?case
  proof (cases "lookupPercentile pm code v (fieldKey h (p v))")
    case None
    with Cons.prems(1) show ?thesis by simp
  next
    case (Some x)
    with Cons.prems(1) have rest: "resolvePercentiles h pm code vs (p(v \<mapsto> Number x)) = Inl q"
      by simp
    from Cons.prems(2) have d: "distinct vs" and nv: "v \<notin> set vs" by auto
    from Cons.IH [OF rest d] have q: "q \<in> set vs"
      and l: "lookupPercentile pm code q (fieldKey h ((p(v \<mapsto> Number x)) q)) = None" by auto
    from q nv have "q \<noteq> v" by auto
    with q l show ?thesis by simp
  qed
qed

lemma resolvePercentiles_fails:
  assumes "pVar \<in> set vs" and "distinct vs"
    and "lookupPercentile pm code pVar (fieldKey h (p pVar)) = None"
  shows "\<exists>q. resolvePercentiles h pm code vs p = Inl q"
proof (cases "resolvePercentiles h pm code vs p")
  case (Inl q)
  then show ?thesis by blast
next
  case (Inr p')
  from resolvePercentiles_Inr [OF Inr assms(2)] assms(1,3) show ?thesis by auto
qed

lemma distinct_percentileVars: "distinct percentileVars"
  by (simp add: percentileVars_def)

text \<open>The lookup structure built from the rows of the percentile table.\<close>

lemma startsWith_p: "startsWith ''p'' pKey \<and> drop 1 pKey = k \<longleftrightarrow> pKey = CHR ''p'' # k"
  by (cases pKey) (auto simp: startsWith_def)

lemma foldl_addPercentileValue_other:
  assumes "(CHR ''p'' # k) \<notin> fst ` set kvs"
  shows "foldl (addPercentileValue h) m kvs k = m k"
  using assms
proof (induction kvs arbitrary: m)
  case Nil
  show ?case by simp
next
  case (Cons kv kvs)
  obtain pKey cell where kv: "kv = (pKey, cell)" by (cases kv)
  from Cons.prems have ne: "pKey \<noteq> CHR ''p'' # k" and rest: "(CHR ''p'' # k) \<notin> fst ` set kvs"
    by (auto simp: kv)
  have "addPercentileValue h m kv k = m k"
    using ne startsWith_p [of pKey k] by (auto simp: addPercentileValue_def kv)
  with Cons.IH [OF rest, of "addPercentileValue h m kv"] show ?case by simp
qed

lemma addPercentileRow_absent:
  assumes "propKey (map_of r ''outcome'') = d \<and> propKey (map_of r ''score'') = s
             \<longrightarrow> (CHR ''p'' # k) \<notin> fst ` set r"
    and "lookupPercentile pm d s k = None"
  shows "lookupPercentile (addPercentileRow h pm r) d s k = None"
proof (cases "propKey (map_of r ''outcome'') = d \<and> propKey (map_of r ''score'') = s")
  case False
  with assms(2) show ?thesis
    by (auto simp: addPercentileRow_def lookupPercentile_def Let_def split: option.splits)
next
  case True
  with assms(1) have "(CHR ''p'' # k) \<notin> fst ` set r" by simp
  then have "(CHR ''p'' # k) \<notin> fst ` set (filter (\<lambda>kv. fst kv \<noteq> ''outcome'' \<and> fst kv \<noteq> ''score'') r)"
    by auto
  then have f: "foldl (addPercentileValue h) m
          (filter (\<lambda>kv. fst kv \<noteq> ''outcome'' \<and> fst kv \<noteq> ''score'') r) k = m k" for m
    by (rule foldl_addPercentileValue_other)
  from True assms(2) show ?thesis
    by (auto simp: addPercentileRow_def lookupPercentile_def Let_def f split: option.splits)
qed

lemma preparePercentilesData_absent:
  assumes "\<forall>r \<in> set rows. propKey (map_of r ''outcome'') = d \<and> propKey (map_of r ''score'') = s
             \<longrightarrow> (CHR ''p'' # k) \<notin> fst ` set r"
    and "lookupPercentile pm d s k = None"
  shows "lookupPercentile (preparePercentilesData h rows pm) d s k = None"
  using assms unfolding preparePercentilesData_def
proof (induction rows arbitrary: pm)
  case Nil
  then show ?case by simp
next
  case (Cons r rows)
  have "lookupPercentile (addPercentileRow h pm r) d s k = None"
    using Cons.prems by (intro addPercentileRow_absent) auto
  with Cons show ?case by simp
qed

text \<open>The text of the alert, and that it tells the scores apart.\<close>

lemma lookupFailedMessage_text:
  "lookupFailedMessage q =
     ''Could not find percentile mapping for \"'' @ q @
     ''\" for the selected disease. Please check the 'percentiles.csv' file.''"
  by (simp add: lookupFailedMessage_def)

lemma lookupFailedMessage_inj: "lookupFailedMessage q = lookupFailedMessage q' \<Longrightarrow> q = q'"
  by (simp add: lookupFailedMessage_def)

text \<open>
  Claim C2. Once the form has been read, if for one of the four scores the disease is not
  in the percentile structure, or the score is not there for the disease, or the rank is
  not there for the score, then \<open>calculateRisk\<close> ends at the \<open>return\<close> of the
  lookup failure. Its alert is the sentence of the source around the name of a score whose
  lookup failed (the first one, so the given score if it is the only one), and the sentence
  tells the scores apart. The page it leaves has the disease name set, the risk still at
  \<open>Calculating...\<close>, the result area shown, that one alert added, and the error
  logged. A lookup that succeeds puts the entry of exactly that rank in place of the rank:
  no other value is ever used. A pair or a rank column that no row of the percentile table
  has is absent from the structure built from the rows.
\<close>

theorem percentile_lookup_failure_aborts:
  assumes parse: "parseForm h formData Map.empty = Inr parsed"
    and code: "code = propKey (getDiseaseCode selectedDiseaseName)"
    and pVar: "pVar \<in> set percentileVars"
    and absent: "percentileMap e code = None
       \<or> (\<exists>byScore. percentileMap e code = Some byScore \<and> byScore pVar = None)
       \<or> (\<exists>byScore byRank. percentileMap e code = Some byScore \<and> byScore pVar = Some byRank
             \<and> byRank (fieldKey h (encodeEthnicity parsed pVar)) = None)"
  shows "fst (calculateRisk h e formData selectedDiseaseName u) = ReturnLookupFailed
     \<and> (\<exists>q \<in> set percentileVars.
           lookupPercentile (percentileMap e) code q (fieldKey h (encodeEthnicity parsed q)) = None
           \<and> alerts (snd (calculateRisk h e formData selectedDiseaseName u))
               = alerts u @ [lookupFailedMessage q]
           \<and> calculateRisk h e formData selectedDiseaseName u =
               (ReturnLookupFailed,
                u\<lparr>disease_name := selectedDiseaseName, disease_risk := ''Calculating...'',
                  results_shown := True,
                  alerts := alerts u @
                    [''Could not find percentile mapping for \"'' @ q @
                     ''\" for the selected disease. Please check the 'percentiles.csv' file.''],
                  console := console u @ [''Error looking up percentile for '' @ q @ '':'']\<rparr>))
     \<and> ((\<forall>q \<in> set percentileVars. q \<noteq> pVar \<longrightarrow>
            lookupPercentile (percentileMap e) code q (fieldKey h (encodeEthnicity parsed q)) \<noteq> None)
          \<longrightarrow> alerts (snd (calculateRisk h e formData selectedDiseaseName u))
               = alerts u @ [lookupFailedMessage pVar]
            \<and> calculateRisk h e formData selectedDiseaseName u =
               (ReturnLookupFailed,
                u\<lparr>disease_name := selectedDiseaseName, disease_risk := ''Calculating...'',
                  results_shown := True,
                  alerts := alerts u @
                    [''Could not find percentile mapping for \"'' @ pVar @
                     ''\" for the selected disease. Please check the 'percentiles.csv' file.''],
                  console := console u @ [''Error looking up percentile for '' @ pVar @ '':'']\<rparr>))
     \<and> (\<forall>q q'. lookupFailedMessage q = lookupFailedMessage q' \<longrightarrow> q = q')
     \<and> (\<forall>q. lookupFailedMessage q =
            ''Could not find percentile mapping for \"'' @ q @
            ''\" for the selected disease. Please check the 'percentiles.csv' file.'')
     \<and> (\<forall>p p'. resolvePercentiles h (percentileMap e) code percentileVars p = Inr p' \<longrightarrow>
           (\<forall>q \<in> set percentileVars.
              \<exists>x. lookupPercentile (percentileMap e) code q (fieldKey h (p q)) = Some x
                \<and> p' q = Some (Number x)))
     \<and> ((\<forall>r \<in> set rows. propKey (map_of r ''outcome'') = code \<and> propKey (map_of r ''score'') = pVar
            \<longrightarrow> (CHR ''p'' # rank) \<notin> fst ` set r)
          \<longrightarrow> lookupPercentile (preparePercentilesData h rows Map.empty) code pVar rank = None)"
proof -
  let ?pm = "percentileMap e"
  let ?p = "encodeEthnicity parsed"
  let ?res = "calculateRisk h e formData selectedDiseaseName u"
  let ?page = "\<lambda>q. (ReturnLookupFailed,
                u\<lparr>disease_name := selectedDiseaseName, disease_risk := ''Calculating...'',
                  results_shown := True,
                  alerts := alerts u @
                    [''Could not find percentile mapping for \"'' @ q @
                     ''\" for the selected disease. Please check the 'percentiles.csv' file.''],
                  console := console u @ [''Error looking up percentile for '' @ q @ '':'']\<rparr>)"
  have none: "lookupPercentile ?pm code pVar (fieldKey h (?p pVar)) = None"
    using absent by (simp add: lookupPercentile_None_iff)
  obtain q where q: "resolvePercentiles h ?pm code percentileVars ?p = Inl q"
    using resolvePercentiles_fails [where p = ?p, OF pVar distinct_percentileVars none] by blast
  from resolvePercentiles_Inl [OF q distinct_percentileVars]
  have qin: "q \<in> set percentileVars"
    and qnone: "lookupPercentile ?pm code q (fieldKey h (?p q)) = None" by auto
  have res: "?res = ?page q"
    using parse q by (simp add: calculateRisk_def Let_def code lookupFailedMessage_text)
  have 1: "fst ?res = ReturnLookupFailed" by (simp add: res)
  have al: "alerts (snd ?res) = alerts u @ [lookupFailedMessage q]"
    by (simp add: res lookupFailedMessage_text)
  have 2: "\<exists>q \<in> set percentileVars.
           lookupPercentile ?pm code q (fieldKey h (?p q)) = None
           \<and> alerts (snd ?res) = alerts u @ [lookupFailedMessage q]
           \<and> ?res = ?page q"
    using qin qnone al res by blast
  have 3: "(\<forall>q \<in> set percentileVars. q \<noteq> pVar \<longrightarrow>
            lookupPercentile ?pm code q (fieldKey h (?p q)) \<noteq> None)
          \<longrightarrow> alerts (snd ?res) = alerts u @ [lookupFailedMessage pVar] \<and> ?res = ?page pVar"
  proof
    assume "\<forall>q \<in> set percentileVars. q \<noteq> pVar \<longrightarrow>
            lookupPercentile ?pm code q (fieldKey h (?p q)) \<noteq> None"
    with qin qnone have "q = pVar" by blast
    with al res show "alerts (snd ?res) = alerts u @ [lookupFailedMessage pVar] \<and> ?res = ?page pVar"
      by simp
  qed
  have 4: "\<forall>q q'. lookupFailedMessage q = lookupFailedMessage q' \<longrightarrow> q = q'"
    using lookupFailedMessage_inj by blast
  have 5: "\<forall>q. lookupFailedMessage q =
            ''Could not find percentile mapping for \"'' @ q @
            ''\" for the selected disease. Please check the 'percentiles.csv' file.''"
    using lookupFailedMessage_text by blast
  have 6: "\<forall>p p'. resolvePercentiles h ?pm code percentileVars p = Inr p' \<longrightarrow>
           (\<forall>q \<in> set percentileVars.
              \<exists>x. lookupPercentile ?pm code q (fieldKey h (p q)) = Some x
                \<and> p' q = Some (Number x))"
    using resolvePercentiles_Inr [OF _ distinct_percentileVars] by blast
  have 7: "(\<forall>r \<in> set rows. propKey (map_of r ''outcome'') = code \<and> propKey (map_of r ''score'') = pVar
            \<longrightarrow> (CHR ''p'' # rank) \<notin> fst ` set r)
          \<longrightarrow> lookupPercentile (preparePercentilesData h rows Map.empty) code pVar rank = None"
  proof
    assume a: "\<forall>r \<in> set rows. propKey (map_of r ''outcome'') = code \<and> propKey (map_of r ''score'') = pVar
            \<longrightarrow> (CHR ''p'' # rank) \<notin> fst ` set r"
    have "lookupPercentile Map.empty code pVar rank = None" by (simp add: lookupPercentile_def)
    with a show "lookupPercentile (preparePercentilesData h rows Map.empty) code pVar rank = None"
      by (rule preparePercentilesData_absent)
  qed
  show ?thesis
    apply (intro conjI)
          apply (rule 1)
         apply (rule 2)
        apply (rule 3)
       apply (rule 4)
      apply (rule 5)
     apply (rule 6)
    apply (rule 7)
    done
qed

text \<open>
  Claim C2 on the example tables: no row for \<open>proscore\<close> of \<open>stroke\<close>, and no
  rank 12.5 for \<open>prs\<close> of \<open>cad\<close>; the alerts name \<open>proscore\<close> and \<open>prs\<close>.
\<close>

theorem percentile_lookup_failure_aborts_witness:
  "calculateRisk example_host example_env example_form ''Stroke'' example_ui =
     (ReturnLookupFailed,
      example_ui\<lparr>disease_name := ''Stroke'', disease_risk := ''Calculating...'',
        results_shown := True,
        alerts := [''Could not find percentile mapping for \"proscore\" for the selected disease. Please check the 'percentiles.csv' file.''],
        console := [''Error looking up percentile for proscore:'']\<rparr>)
   \<and> fst (calculateRisk example_host example_env example_form ''Stroke'' example_ui) = ReturnLookupFailed
   \<and> alerts (snd (calculateRisk example_host example_env example_form ''Stroke'' example_ui))
       = [lookupFailedMessage ''proscore'']
   \<and> lookupPercentile (preparePercentilesData example_host example_percentiles Map.empty)
        ''stroke'' ''proscore'' ''50'' = None
   \<and> fst (calculateRisk example_host example_env (with_field ''prs'' ''12.5'' example_form)
          ''Coronary artery disease'' example_ui) = ReturnLookupFailed
   \<and> alerts (snd (calculateRisk example_host example_env (with_field ''prs'' ''12.5'' example_form)
          ''Coronary artery disease'' example_ui))
       = [''Could not find percentile mapping for \"prs\" for the selected disease. Please check the 'percentiles.csv' file.'']
   \<and> (\<exists>x. lookupPercentile (percentileMap example_env) ''cad'' ''prs'' ''50'' = Some x
          \<and> projr (resolvePercentiles example_host (percentileMap example_env) ''cad''
                 percentileVars
                 (encodeEthnicity (projr (parseForm example_host example_form Map.empty))))
               ''prs'' = Some (Number x))"
proof -
  let ?parsed = "projr (parseForm example_host example_form Map.empty)"
  let ?parsed' = "projr (parseForm example_host (with_field ''prs'' ''12.5'' example_form) Map.empty)"
  have parse: "parseForm example_host example_form Map.empty = Inr ?parsed"
    by (simp add: num_defs data_defs calc_defs example_defs Let_def)
  have parse': "parseForm example_host (with_field ''prs'' ''12.5'' example_form) Map.empty = Inr ?parsed'"
    by (simp add: num_defs data_defs calc_defs example_defs Let_def)
  have code: "''stroke'' = propKey (getDiseaseCode ''Stroke'')" by (simp add: data_defs)
  have code': "''cad'' = propKey (getDiseaseCode ''Coronary artery disease'')" by (simp add: data_defs)
  have pv: "''proscore'' \<in> set percentileVars" "''prs'' \<in> set percentileVars"
    by (simp_all add: percentileVars_def)
  have absent: "percentileMap example_env ''stroke'' = None
       \<or> (\<exists>byScore. percentileMap example_env ''stroke'' = Some byScore \<and> byScore ''proscore'' = None)
       \<or> (\<exists>byScore byRank. percentileMap example_env ''stroke'' = Some byScore
             \<and> byScore ''proscore'' = Some byRank
             \<and> byRank (fieldKey example_host (encodeEthnicity ?parsed ''proscore'')) = None)"
    by (simp add: num_defs data_defs calc_defs example_defs Let_def)
  have absent': "percentileMap example_env ''cad'' = None
       \<or> (\<exists>byScore. percentileMap example_env ''cad'' = Some byScore \<and> byScore ''prs'' = None)
       \<or> (\<exists>byScore byRank. percentileMap example_env ''cad'' = Some byScore
             \<and> byScore ''prs'' = Some byRank
             \<and> byRank (fieldKey example_host (encodeEthnicity ?parsed' ''prs'')) = None)"
    by (simp add: num_defs data_defs calc_defs example_defs Let_def)
  have others: "\<forall>q \<in> set percentileVars. q \<noteq> ''proscore'' \<longrightarrow>
      lookupPercentile (percentileMap example_env) ''stroke'' q
        (fieldKey example_host (encodeEthnicity ?parsed q)) \<noteq> None"
    by (simp add: num_defs data_defs calc_defs example_defs Let_def)
  have others': "\<forall>q \<in> set percentileVars. q \<noteq> ''prs'' \<longrightarrow>
      lookupPercentile (percentileMap example_env) ''cad'' q
        (fieldKey example_host (encodeEthnicity ?parsed' q)) \<noteq> None"
    by (simp add: num_defs data_defs calc_defs example_defs Let_def)
  have rows: "\<forall>r \<in> set example_percentiles.
      propKey (map_of r ''outcome'') = ''stroke'' \<and> propKey (map_of r ''score'') = ''proscore''
        \<longrightarrow> (CHR ''p'' # ''50'') \<notin> fst ` set r"
    by (simp add: data_defs example_defs)
  note t = percentile_lookup_failure_aborts [OF parse code pv(1) absent,
      where u = example_ui and rows = example_percentiles and rank = "''50''"]
  note t' = percentile_lookup_failure_aborts [OF parse' code' pv(2) absent',
      where u = example_ui and rows = example_percentiles and rank = "''50''"]
  have ui: "alerts example_ui = []" "console example_ui = []" by (simp_all add: example_ui_def)
  from t have a: "fst (calculateRisk example_host example_env example_form ''Stroke'' example_ui)
      = ReturnLookupFailed" by (rule conjunct1)
  from t others have "alerts (snd (calculateRisk example_host example_env example_form ''Stroke'' example_ui))
       = alerts example_ui @ [lookupFailedMessage ''proscore'']
     \<and> calculateRisk example_host example_env example_form ''Stroke'' example_ui =
       (ReturnLookupFailed,
        example_ui\<lparr>disease_name := ''Stroke'', disease_risk := ''Calculating...'',
          results_shown := True,
          alerts := alerts example_ui @
            [''Could not find percentile mapping for \"'' @ ''proscore'' @
             ''\" for the selected disease. Please check the 'percentiles.csv' file.''],
          console := console example_ui @ [''Error looking up percentile for '' @ ''proscore'' @ '':'']\<rparr>)"
    by blast
  then have b: "alerts (snd (calculateRisk example_host example_env example_form ''Stroke'' example_ui))
       = [lookupFailedMessage ''proscore'']"
    and page: "calculateRisk example_host example_env example_form ''Stroke'' example_ui =
     (ReturnLookupFailed,
      example_ui\<lparr>disease_name := ''Stroke'', disease_risk := ''Calculating...'',
        results_shown := True,
        alerts := [''Could not find percentile mapping for \"proscore\" for the selected disease. Please check the 'percentiles.csv' file.''],
        console := [''Error looking up percentile for proscore:'']\<rparr>)"
    unfolding ui by (simp_all add: lookupFailedMessage_def)
  from t rows have c: "lookupPercentile (preparePercentilesData example_host example_percentiles Map.empty)
        ''stroke'' ''proscore'' ''50'' = None" by blast
  from t' have d: "fst (calculateRisk example_host example_env (with_field ''prs'' ''12.5'' example_form)
          ''Coronary artery disease'' example_ui) = ReturnLookupFailed" by (rule conjunct1)
  from t' others' have "calculateRisk example_host example_env
          (with_field ''prs'' ''12.5'' example_form) ''Coronary artery disease'' example_ui =
       (ReturnLookupFailed,
        example_ui\<lparr>disease_name := ''Coronary artery disease'', disease_risk := ''Calculating...'',
          results_shown := True,
          alerts := alerts example_ui @
            [''Could not find percentile mapping for \"'' @ ''prs'' @
             ''\" for the selected disease. Please check the 'percentiles.csv' file.''],
          console := console example_ui @ [''Error looking up percentile for '' @ ''prs'' @ '':'']\<rparr>)"
    by blast
  then have e: "alerts (snd (calculateRisk example_host example_env
          (with_field ''prs'' ''12.5'' example_form) ''Coronary artery disease'' example_ui))
       = [''Could not find percentile mapping for \"prs\" for the selected disease. Please check the 'percentiles.csv' file.'']"
    unfolding ui by simp
  let ?pd = "projr (resolvePercentiles example_host (percentileMap example_env) ''cad''
               percentileVars (encodeEthnicity ?parsed))"
  have ok: "resolvePercentiles example_host (percentileMap example_env) ''cad''
               percentileVars (encodeEthnicity ?parsed) = Inr ?pd"
    by (simp add: num_defs data_defs calc_defs example_defs Let_def)
  have key: "fieldKey example_host (encodeEthnicity ?parsed ''prs'') = ''50''"
    by (simp add: num_defs data_defs calc_defs example_defs Let_def)
  from t' ok pv(2)
  have "\<exists>x. lookupPercentile (percentileMap example_env) ''cad'' ''prs''
              (fieldKey example_host (encodeEthnicity ?parsed ''prs'')) = Some x
          \<and> ?pd ''prs'' = Some (Number x)"
    by blast
  then have g: "\<exists>x. lookupPercentile (percentileMap example_env) ''cad'' ''prs'' ''50'' = Some x
          \<and> ?pd ''prs'' = Some (Number x)"
    unfolding key .
  from page a b c d e g show ?thesis by (intro conjI)
qed

section \<open>The standardisation\<close>

lemma js_sqrt_zero_iff: "js_sqrt x = Fin 0 \<longleftrightarrow> x = Fin 0"
  by (cases x) auto

lemma scaleVariable_after_error:
  "scalingError st \<Longrightarrow> scaleVariable h params parsedData st v = st"
  by (simp add: scaleVariable_def)

lemma foldl_scaleVariable_after_error:
  "scalingError st \<Longrightarrow> foldl (scaleVariable h params parsedData) st vs = st"
  by (induction vs) (simp_all add: scaleVariable_after_error)

text \<open>A standardisation that succeeds leaves the page as it was.\<close>

lemma scaleVariable_ui:
  "\<not> scalingError (scaleVariable h params parsedData st v) \<Longrightarrow>
     scaling_ui (scaleVariable h params parsedData st v) = scaling_ui st"
  by (auto simp: scaleVariable_def Let_def split: option.splits if_splits)

lemma foldl_scaleVariable_ui:
  "\<not> scalingError (foldl (scaleVariable h params parsedData) st vs) \<Longrightarrow>
     scaling_ui (foldl (scaleVariable h params parsedData) st vs) = scaling_ui st"
proof (induction vs arbitrary: st)
  case Nil
  show ?case by simp
next
  case (Cons v vs)
  have ok: "\<not> scalingError (scaleVariable h params parsedData st v)"
  proof
    assume "scalingError (scaleVariable h params parsedData st v)"
    then have "foldl (scaleVariable h params parsedData) (scaleVariable h params parsedData st v) vs
        = scaleVariable h params parsedData st v"
      by (rule foldl_scaleVariable_after_error)
    with Cons.prems \<open>scalingError (scaleVariable h params parsedData st v)\<close> show False by simp
  qed
  from Cons.IH [of "scaleVariable h params parsedData st v"] Cons.prems
  have "scaling_ui (foldl (scaleVariable h params parsedData) st (v # vs))
      = scaling_ui (scaleVariable h params parsedData st v)" by simp
  with scaleVariable_ui [OF ok] show ?case by simp
qed

lemma scalePanel_ui:
  "\<not> scalingError (scalePanel h params parsedData u) \<Longrightarrow>
     scaling_ui (scalePanel h params parsedData u) = u"
  using foldl_scaleVariable_ui [of h params parsedData
      "\<lparr>scaledData = Map.empty, scalingError = False, scaling_ui = u\<rparr>" panelVars]
  by (simp add: scalePanel_def)

lemma scaleVariable_missing:
  assumes "\<not> scalingError st" and "find (\<lambda>p. map_of p ''feature'' = Some v) params = None"
  shows "scaleVariable h params parsedData st v =
     st\<lparr>scalingError := True,
        scaling_ui := (scaling_ui st)
          \<lparr>alerts := alerts (scaling_ui st) @ [missingParamsMessage v],
           console := console (scaling_ui st) @ [missingParamsLog v]\<rparr>\<rparr>"
  using assms by (simp add: scaleVariable_def)

lemma scaleVariable_zero:
  assumes "\<not> scalingError st" and "find (\<lambda>p. map_of p ''feature'' = Some v) params = Some p"
    and "parseFloat_cell h (map_of p ''variance'') = Fin 0"
  shows "scaleVariable h params parsedData st v =
     st\<lparr>scalingError := True,
        scaling_ui := (scaling_ui st)
          \<lparr>alerts := alerts (scaling_ui st) @ [zeroStdMessage v],
           console := console (scaling_ui st) @ [zeroStdLog v]\<rparr>\<rparr>"
  using assms by (simp add: scaleVariable_def Let_def)

lemma scaleVariable_ok:
  assumes "\<not> scalingError st" and "find (\<lambda>p. map_of p ''feature'' = Some v) params = Some p"
    and "parseFloat_cell h (map_of p ''variance'') \<noteq> Fin 0"
  shows "\<not> scalingError (scaleVariable h params parsedData st v)
       \<and> scaling_ui (scaleVariable h params parsedData st v) = scaling_ui st"
  using assms by (simp add: scaleVariable_def Let_def js_sqrt_zero_iff)

lemma foldl_scaleVariable_ok:
  assumes "\<not> scalingError st"
    and "\<forall>v \<in> set vs. \<exists>p. find (\<lambda>p. map_of p ''feature'' = Some v) params = Some p
            \<and> parseFloat_cell h (map_of p ''variance'') \<noteq> Fin 0"
  shows "\<not> scalingError (foldl (scaleVariable h params parsedData) st vs)
       \<and> scaling_ui (foldl (scaleVariable h params parsedData) st vs) = scaling_ui st"
  using assms
proof (induction vs arbitrary: st)
  case Nil
  then show ?case by simp
next
  case (Cons v vs)
  from Cons.prems(2) obtain p where p: "find (\<lambda>p. map_of p ''feature'' = Some v) params = Some p"
    "parseFloat_cell h (map_of p ''variance'') \<noteq> Fin 0" by auto
  note s = scaleVariable_ok [OF Cons.prems(1) p, of parsedData]
  from s Cons.prems(2) Cons.IH [of "scaleVariable h params parsedData st v"]
  show ?case by simp
qed

text \<open>The first variable that cannot be scaled decides the result.\<close>

lemma scalePanel_fails:
  assumes v: "v \<in> set panelVars"
    and bad: "find (\<lambda>p. map_of p ''feature'' = Some v) params = None
       \<or> (\<exists>p. find (\<lambda>p. map_of p ''feature'' = Some v) params = Some p
             \<and> parseFloat_cell h (map_of p ''variance'') = Fin 0)"
  shows "scalingError (scalePanel h params parsedData u)
     \<and> disease_risk (scaling_ui (scalePanel h params parsedData u)) = disease_risk u
     \<and> (\<exists>w \<in> set panelVars.
          (find (\<lambda>p. map_of p ''feature'' = Some w) params = None
             \<and> alerts (scaling_ui (scalePanel h params parsedData u))
                 = alerts u @ [missingParamsMessage w])
        \<or> ((\<exists>p. find (\<lambda>p. map_of p ''feature'' = Some w) params = Some p
                \<and> parseFloat_cell h (map_of p ''variance'') = Fin 0)
             \<and> alerts (scaling_ui (scalePanel h params parsedData u))
                 = alerts u @ [zeroStdMessage w]))"
proof -
  let ?bad = "\<lambda>v. find (\<lambda>p. map_of p ''feature'' = Some v) params = None
       \<or> (\<exists>p. find (\<lambda>p. map_of p ''feature'' = Some v) params = Some p
             \<and> parseFloat_cell h (map_of p ''variance'') = Fin 0)"
  let ?st0 = "\<lparr>scaledData = Map.empty, scalingError = False, scaling_ui = u\<rparr>"
  let ?f = "scaleVariable h params parsedData"
  from v bad have "\<exists>x \<in> set panelVars. ?bad x" by blast
  then obtain ys w zs where split: "panelVars = ys @ w # zs" and w: "?bad w"
    and ys: "\<forall>y \<in> set ys. \<not> ?bad y"
    using split_list_first_prop [of panelVars ?bad] by blast
  have "\<forall>y \<in> set ys. \<exists>p. find (\<lambda>p. map_of p ''feature'' = Some y) params = Some p
            \<and> parseFloat_cell h (map_of p ''variance'') \<noteq> Fin 0"
  proof
    fix y assume "y \<in> set ys"
    with ys have "\<not> ?bad y" by blast
    then show "\<exists>p. find (\<lambda>p. map_of p ''feature'' = Some y) params = Some p
            \<and> parseFloat_cell h (map_of p ''variance'') \<noteq> Fin 0"
      by (cases "find (\<lambda>p. map_of p ''feature'' = Some y) params") auto
  qed
  then have pre: "\<not> scalingError (foldl ?f ?st0 ys)" "scaling_ui (foldl ?f ?st0 ys) = u"
    using foldl_scaleVariable_ok [of ?st0 ys params h parsedData] by simp_all
  have win: "w \<in> set panelVars" by (simp add: split)
  have fin: "scalePanel h params parsedData u = ?f (foldl ?f ?st0 ys) w"
    if "scalingError (?f (foldl ?f ?st0 ys) w)"
    using that by (simp add: scalePanel_def split foldl_scaleVariable_after_error)
  from w show ?thesis
  proof
    assume m: "find (\<lambda>p. map_of p ''feature'' = Some w) params = None"
    note s = scaleVariable_missing [OF pre(1) m, of h parsedData]
    have "scalingError (?f (foldl ?f ?st0 ys) w)" by (simp add: s)
    from fin [OF this] show ?thesis using s pre(2) m win by auto
  next
    assume "\<exists>p. find (\<lambda>p. map_of p ''feature'' = Some w) params = Some p
             \<and> parseFloat_cell h (map_of p ''variance'') = Fin 0"
    then obtain p where p: "find (\<lambda>p. map_of p ''feature'' = Some w) params = Some p"
      "parseFloat_cell h (map_of p ''variance'') = Fin 0" by blast
    note s = scaleVariable_zero [OF pre(1) p, of parsedData]
    have "scalingError (?f (foldl ?f ?st0 ys) w)" by (simp add: s)
    from fin [OF this] show ?thesis using s pre(2) p win by auto
  qed
qed

text \<open>
  Claim C8. Once the form has been read and the percentiles resolved, if a panel variable
  has no scaler parameters or has a variance of exactly zero, \<open>calculateRisk\<close> ends at
  the \<open>return\<close> of the scaling failure with \<open>--\<close> as the risk text, and the alert is
  the one of the first such variable: the message of missing parameters or the message of
  the zero standard deviation, which differ from each other and from the message of a
  failed lookup. For the variable itself, the step of the loop sets the error flag and
  stores no scaled value: the test comes before the division.
\<close>

theorem scaling_failure_aborts:
  assumes parse: "parseForm h formData Map.empty = Inr parsed"
    and resolve: "resolvePercentiles h (percentileMap e) (propKey (getDiseaseCode selectedDiseaseName))
                    percentileVars (encodeEthnicity parsed) = Inr parsedData"
    and v: "v \<in> set panelVars"
    and bad: "find (\<lambda>p. map_of p ''feature'' = Some v) (panelScalerParams e) = None
       \<or> (\<exists>p. find (\<lambda>p. map_of p ''feature'' = Some v) (panelScalerParams e) = Some p
             \<and> parseFloat_cell h (map_of p ''variance'') = Fin 0)"
  shows "fst (calculateRisk h e formData selectedDiseaseName u) = ReturnScalingFailed
     \<and> disease_risk (snd (calculateRisk h e formData selectedDiseaseName u)) = ''--''
     \<and> (\<exists>w \<in> set panelVars.
          (find (\<lambda>p. map_of p ''feature'' = Some w) (panelScalerParams e) = None
             \<and> alerts (snd (calculateRisk h e formData selectedDiseaseName u))
                 = alerts u @ [missingParamsMessage w])
        \<or> ((\<exists>p. find (\<lambda>p. map_of p ''feature'' = Some w) (panelScalerParams e) = Some p
                \<and> parseFloat_cell h (map_of p ''variance'') = Fin 0)
             \<and> alerts (snd (calculateRisk h e formData selectedDiseaseName u))
                 = alerts u @ [zeroStdMessage w]))
     \<and> (\<forall>st p pd. \<not> scalingError st
            \<and> find (\<lambda>p. map_of p ''feature'' = Some v) (panelScalerParams e) = Some p
            \<and> parseFloat_cell h (map_of p ''variance'') = Fin 0 \<longrightarrow>
          scalingError (scaleVariable h (panelScalerParams e) pd st v)
          \<and> scaledData (scaleVariable h (panelScalerParams e) pd st v) = scaledData st
          \<and> alerts (scaling_ui (scaleVariable h (panelScalerParams e) pd st v))
              = alerts (scaling_ui st) @ [zeroStdMessage v])
     \<and> (\<forall>st pd. \<not> scalingError st
            \<and> find (\<lambda>p. map_of p ''feature'' = Some v) (panelScalerParams e) = None \<longrightarrow>
          scalingError (scaleVariable h (panelScalerParams e) pd st v)
          \<and> scaledData (scaleVariable h (panelScalerParams e) pd st v) = scaledData st
          \<and> alerts (scaling_ui (scaleVariable h (panelScalerParams e) pd st v))
              = alerts (scaling_ui st) @ [missingParamsMessage v])
     \<and> zeroStdMessage a \<noteq> missingParamsMessage b
     \<and> lookupFailedMessage c \<noteq> zeroStdMessage a
     \<and> lookupFailedMessage c \<noteq> missingParamsMessage b"
proof -
  let ?res = "calculateRisk h e formData selectedDiseaseName u"
  let ?u1 = "u\<lparr>disease_name := selectedDiseaseName, disease_risk := ''Calculating...'',
               results_shown := True\<rparr>"
  let ?st = "scalePanel h (panelScalerParams e) parsedData ?u1"
  note s = scalePanel_fails [OF v bad, of parsedData ?u1]
  from s have err: "scalingError ?st" by blast
  have res: "?res = (ReturnScalingFailed, (scaling_ui ?st)\<lparr>disease_risk := ''--''\<rparr>)"
    using parse resolve err by (simp add: calculateRisk_def Let_def)
  have 1: "fst ?res = ReturnScalingFailed" by (simp add: res)
  have 2: "disease_risk (snd ?res) = ''--''" by (simp add: res)
  have al: "alerts (snd ?res) = alerts (scaling_ui ?st)" by (simp add: res)
  have 3: "\<exists>w \<in> set panelVars.
          (find (\<lambda>p. map_of p ''feature'' = Some w) (panelScalerParams e) = None
             \<and> alerts (snd ?res) = alerts u @ [missingParamsMessage w])
        \<or> ((\<exists>p. find (\<lambda>p. map_of p ''feature'' = Some w) (panelScalerParams e) = Some p
                \<and> parseFloat_cell h (map_of p ''variance'') = Fin 0)
             \<and> alerts (snd ?res) = alerts u @ [zeroStdMessage w])"
    using s unfolding al by simp
  have 4: "\<forall>st p pd. \<not> scalingError st
            \<and> find (\<lambda>p. map_of p ''feature'' = Some v) (panelScalerParams e) = Some p
            \<and> parseFloat_cell h (map_of p ''variance'') = Fin 0 \<longrightarrow>
          scalingError (scaleVariable h (panelScalerParams e) pd st v)
          \<and> scaledData (scaleVariable h (panelScalerParams e) pd st v) = scaledData st
          \<and> alerts (scaling_ui (scaleVariable h (panelScalerParams e) pd st v))
              = alerts (scaling_ui st) @ [zeroStdMessage v]"
    by (simp add: scaleVariable_zero)
  have 5: "\<forall>st pd. \<not> scalingError st
            \<and> find (\<lambda>p. map_of p ''feature'' = Some v) (panelScalerParams e) = None \<longrightarrow>
          scalingError (scaleVariable h (panelScalerParams e) pd st v)
          \<and> scaledData (scaleVariable h (panelScalerParams e) pd st v) = scaledData st
          \<and> alerts (scaling_ui (scaleVariable h (panelScalerParams e) pd st v))
              = alerts (scaling_ui st) @ [missingParamsMessage v]"
    by (simp add: scaleVariable_missing)
  have 6: "zeroStdMessage a \<noteq> missingParamsMessage b"
    "lookupFailedMessage c \<noteq> zeroStdMessage a"
    "lookupFailedMessage c \<noteq> missingParamsMessage b"
    by (simp_all add: zeroStdMessage_def missingParamsMessage_def lookupFailedMessage_def)
  from 1 2 3 4 5 6 show ?thesis by blast
qed

text \<open>
  Claim C8 on the example tables, without the scaler row of \<open>age\<close> and with a zero
  variance in it.
\<close>

theorem scaling_failure_aborts_witness:
  "fst (calculateRisk example_host
        (example_env\<lparr>panelScalerParams :=
           [(''feature'', ''age''), (''mean'', ''0''), (''variance'', ''0'')] # tl example_scaler\<rparr>)
        example_form ''Coronary artery disease'' example_ui) = ReturnScalingFailed
   \<and> disease_risk (snd (calculateRisk example_host
        (example_env\<lparr>panelScalerParams :=
           [(''feature'', ''age''), (''mean'', ''0''), (''variance'', ''0'')] # tl example_scaler\<rparr>)
        example_form ''Coronary artery disease'' example_ui)) = ''--''
   \<and> scaledData (scaleVariable example_host
        ([(''feature'', ''age''), (''mean'', ''0''), (''variance'', ''0'')] # tl example_scaler)
        [''age'' \<mapsto> Number (Fin 1)]
        \<lparr>scaledData = Map.empty, scalingError = False, scaling_ui = example_ui\<rparr> ''age'') ''age''
       = None
   \<and> fst (calculateRisk example_host (example_env\<lparr>panelScalerParams := tl example_scaler\<rparr>)
        example_form ''Coronary artery disease'' example_ui) = ReturnScalingFailed
   \<and> disease_risk (snd (calculateRisk example_host
        (example_env\<lparr>panelScalerParams := tl example_scaler\<rparr>)
        example_form ''Coronary artery disease'' example_ui)) = ''--''
   \<and> alerts (snd (calculateRisk example_host
        (example_env\<lparr>panelScalerParams := tl example_scaler\<rparr>)
        example_form ''Coronary artery disease'' example_ui)) = [missingParamsMessage ''age'']"
proof -
  let ?zero = "[(''feature'', ''age''), (''mean'', ''0''), (''variance'', ''0'')] # tl example_scaler"
  let ?e = "example_env\<lparr>panelScalerParams := ?zero\<rparr>"
  let ?m = "example_env\<lparr>panelScalerParams := tl example_scaler\<rparr>"
  let ?n = "''Coronary artery disease''"
  let ?parsed = "projr (parseForm example_host example_form Map.empty)"
  let ?pd = "projr (resolvePercentiles example_host (percentileMap example_env)
               (propKey (getDiseaseCode ?n)) percentileVars (encodeEthnicity ?parsed))"
  let ?st = "\<lparr>scaledData = Map.empty, scalingError = False, scaling_ui = example_ui\<rparr>"
  have parse: "parseForm example_host example_form Map.empty = Inr ?parsed"
    by (simp add: num_defs data_defs calc_defs example_defs Let_def)
  have resolve: "resolvePercentiles example_host (percentileMap ?e)
               (propKey (getDiseaseCode ?n)) percentileVars (encodeEthnicity ?parsed) = Inr ?pd"
    by (simp add: num_defs data_defs calc_defs example_defs Let_def)
  have resolve_m: "resolvePercentiles example_host (percentileMap ?m)
               (propKey (getDiseaseCode ?n)) percentileVars (encodeEthnicity ?parsed) = Inr ?pd"
    by (simp add: num_defs data_defs calc_defs example_defs Let_def)
  have v: "''age'' \<in> set panelVars" by (simp add: panelVars_def)
  have row: "find (\<lambda>p. map_of p ''feature'' = Some ''age'') (panelScalerParams ?e)
      = Some [(''feature'', ''age''), (''mean'', ''0''), (''variance'', ''0'')]"
    by simp
  have zero: "parseFloat_cell example_host
      (map_of [(''feature'', ''age''), (''mean'', ''0''), (''variance'', ''0'')] ''variance'') = Fin 0"
    by (simp add: data_defs example_defs)
  have missing: "find (\<lambda>p. map_of p ''feature'' = Some ''age'') (panelScalerParams ?m) = None"
    by (simp add: example_defs panelVars_def)
  have bad: "find (\<lambda>p. map_of p ''feature'' = Some ''age'') (panelScalerParams ?e) = None
       \<or> (\<exists>p. find (\<lambda>p. map_of p ''feature'' = Some ''age'') (panelScalerParams ?e) = Some p
             \<and> parseFloat_cell example_host (map_of p ''variance'') = Fin 0)"
    using row zero by blast
  have bad_m: "find (\<lambda>p. map_of p ''feature'' = Some ''age'') (panelScalerParams ?m) = None
       \<or> (\<exists>p. find (\<lambda>p. map_of p ''feature'' = Some ''age'') (panelScalerParams ?m) = Some p
             \<and> parseFloat_cell example_host (map_of p ''variance'') = Fin 0)"
    using missing by blast
  note t = scaling_failure_aborts [OF parse resolve v bad, where u = example_ui]
  note t_m = scaling_failure_aborts [OF parse resolve_m v bad_m, where u = example_ui]
  from t have a: "fst (calculateRisk example_host ?e example_form ?n example_ui)
      = ReturnScalingFailed" by blast
  from t have b: "disease_risk (snd (calculateRisk example_host ?e example_form ?n example_ui)) = ''--''"
    by blast
  have ok: "\<not> scalingError ?st" by simp
  from t ok row zero
  have "scaledData (scaleVariable example_host (panelScalerParams ?e)
          [''age'' \<mapsto> Number (Fin 1)] ?st ''age'') = scaledData ?st"
    by blast
  then have c: "scaledData (scaleVariable example_host ?zero
          [''age'' \<mapsto> Number (Fin 1)] ?st ''age'') ''age'' = None"
    by simp
  from t_m have d: "fst (calculateRisk example_host ?m example_form ?n example_ui)
      = ReturnScalingFailed" by blast
  from t_m have e: "disease_risk (snd (calculateRisk example_host ?m example_form ?n example_ui)) = ''--''"
    by blast
  have f: "alerts (snd (calculateRisk example_host ?m example_form ?n example_ui))
      = [missingParamsMessage ''age'']"
    by (simp add: num_defs data_defs calc_defs example_defs Let_def)
  from a b c d e f show ?thesis by blast
qed

section \<open>The baseline survival\<close>

lemma js_less_trans: "js_less a b \<Longrightarrow> js_less b c \<Longrightarrow> js_less a c"
  by (cases a; cases b; cases c) auto

lemma js_le_total: "a \<noteq> NaN \<Longrightarrow> b \<noteq> NaN \<Longrightarrow> js_less a b \<or> js_le b a"
  by (cases a; cases b) (auto simp: js_le_def)

lemma js_le_not_NaN: "js_le a b \<Longrightarrow> a \<noteq> NaN"
  by (cases a; cases b) (auto simp: js_le_def)

lemma js_less_le_trans: "js_less a b \<Longrightarrow> js_le b c \<Longrightarrow> js_less a c"
  by (auto simp: js_le_def dest: js_less_trans)

lemma js_less_irrefl: "\<not> js_less a a"
  by (cases a) auto

lemma foldl_later_in: "foldl later p ps \<in> set (p # ps)"
  by (induction ps arbitrary: p) (auto simp: later_def)

lemma foldl_later_greatest:
  assumes "\<forall>q \<in> set (p # ps). time q \<noteq> NaN"
  shows "\<forall>q \<in> set (p # ps). js_le (time q) (time (foldl later p ps))"
  using assms
proof (induction ps arbitrary: p)
  case Nil
  then show ?case by (simp add: js_le_def)
next
  case (Cons x xs)
  let ?best = "foldl later (later p x) xs"
  have nn: "\<forall>q \<in> set (later p x # xs). time q \<noteq> NaN"
    using Cons.prems by (auto simp: later_def)
  have ih: "\<forall>q \<in> set (later p x # xs). js_le (time q) (time ?best)"
    using Cons.IH [OF nn] .
  then have l: "js_le (time (later p x)) (time ?best)" by simp
  have px: "time p \<noteq> NaN" "time x \<noteq> NaN" using Cons.prems by auto
  have "js_le (time p) (time (later p x)) \<and> js_le (time x) (time (later p x))"
    using px js_le_total [of "time p" "time x"] by (auto simp: later_def js_le_def)
  then have "js_le (time p) (time ?best)" "js_le (time x) (time ?best)"
    using l by (auto simp: js_le_def dest: js_less_trans)
  with ih show ?case by simp
qed

text \<open>The text of the warning, and the run that reaches the end.\<close>

lemma noBaselineWarning_text:
  "noBaselineWarning n =
     ''No baseline survival data found for \"'' @ n @
     ''\" at or before 10 years. Assuming 100% survival.''"
  by (simp add: noBaselineWarning_def)

lemma calculateRisk_done:
  assumes "parseForm h formData Map.empty = Inr parsed"
    and "resolvePercentiles h (percentileMap e) (propKey (getDiseaseCode selectedDiseaseName))
           percentileVars (encodeEthnicity parsed) = Inr parsedData"
    and "scalePanel h (panelScalerParams e) parsedData
           (u\<lparr>disease_name := selectedDiseaseName, disease_risk := ''Calculating...'',
              results_shown := True\<rparr>) = st"
    and "\<not> scalingError st"
    and "coefficients e = r # rs"
    and "linearPredictorOf h (coefficients e) (featureColumnName r)
           (propKey (getDiseaseCode selectedDiseaseName)) (scaledData st) parsedData = lp"
    and "baselineSurvival h (baselineSurvivals e) (propKey (getDiseaseCode selectedDiseaseName))
           selectedDiseaseName = (b, w)"
  shows "calculateRisk h e formData selectedDiseaseName u =
     (ReturnDone,
      u\<lparr>disease_name := selectedDiseaseName, disease_risk := riskText h (predictedRiskOf lp b),
        results_shown := True, console := console u @ w\<rparr>)"
proof -
  have ui: "scaling_ui st = u\<lparr>disease_name := selectedDiseaseName,
      disease_risk := ''Calculating...'', results_shown := True\<rparr>"
    using assms(3,4) scalePanel_ui by blast
  show ?thesis
    using assms(1,2,4,5,6,7) unfolding calculateRisk_def
    by (simp add: Let_def assms(3) ui)
qed

text \<open>
  Claim C4. Among the points of the disease's curve (the rows whose time and survival both
  parse as numbers), the candidates are those with a time of at most 10. Without a
  candidate the baseline survival is 1 and a warning is logged; otherwise it is the survival
  of a candidate whose time is the greatest. The curve (0, 1.0), (5, 0.98), (12, 0.90) gives
  0.98 and the curve (15, 0.80) gives 1 with the warning. In a run of \<open>calculateRisk\<close>
  that passes the lookup and the standardisation, the case without a candidate shows the
  risk computed from a baseline survival of 1 and adds to the console the warning of the
  source, which names the selected disease; the other case shows the risk computed from the
  survival of a latest candidate and leaves the console as it was.
\<close>

theorem baseline_survival_at_horizon:
  "(filter (\<lambda>p. js_le (time p) (Fin 10)) (diseaseSurvivalData h rows code) = [] \<longrightarrow>
      baselineSurvival h rows code diseaseName = (Fin 1, [noBaselineWarning diseaseName]))
   \<and> (filter (\<lambda>p. js_le (time p) (Fin 10)) (diseaseSurvivalData h rows code) \<noteq> [] \<longrightarrow>
        (\<exists>p \<in> set (filter (\<lambda>p. js_le (time p) (Fin 10)) (diseaseSurvivalData h rows code)).
           baselineSurvival h rows code diseaseName = (survival p, [])
           \<and> (\<forall>q \<in> set (filter (\<lambda>p. js_le (time p) (Fin 10)) (diseaseSurvivalData h rows code)).
                 js_le (time q) (time p))))
   \<and> baselineSurvival example_host
        [[(''Time'', ''0''), (''cad'', ''1.0'')], [(''Time'', ''5''), (''cad'', ''0.98'')],
         [(''Time'', ''12''), (''cad'', ''0.90'')]] ''cad'' diseaseName = (Fin (98 / 100), [])
   \<and> baselineSurvival example_host [[(''Time'', ''15''), (''cad'', ''0.80'')]] ''cad'' diseaseName
       = (Fin 1, [noBaselineWarning diseaseName])
   \<and> noBaselineWarning diseaseName =
        ''No baseline survival data found for \"'' @ diseaseName @
        ''\" at or before 10 years. Assuming 100% survival.''
   \<and> (parseForm h formData Map.empty = Inr parsed
        \<and> resolvePercentiles h (percentileMap e) (propKey (getDiseaseCode selectedDiseaseName))
             percentileVars (encodeEthnicity parsed) = Inr parsedData
        \<and> scalePanel h (panelScalerParams e) parsedData
             (u\<lparr>disease_name := selectedDiseaseName, disease_risk := ''Calculating...'',
                results_shown := True\<rparr>) = st
        \<and> \<not> scalingError st
        \<and> coefficients e = r # rs
        \<and> linearPredictorOf h (coefficients e) (featureColumnName r)
             (propKey (getDiseaseCode selectedDiseaseName)) (scaledData st) parsedData = lp
        \<longrightarrow>
          (filter (\<lambda>p. js_le (time p) (Fin 10))
             (diseaseSurvivalData h (baselineSurvivals e)
                (propKey (getDiseaseCode selectedDiseaseName))) = [] \<longrightarrow>
           calculateRisk h e formData selectedDiseaseName u =
             (ReturnDone,
              u\<lparr>disease_name := selectedDiseaseName,
                disease_risk := riskText h (predictedRiskOf lp (Fin 1)),
                results_shown := True,
                console := console u @
                  [''No baseline survival data found for \"'' @ selectedDiseaseName @
                   ''\" at or before 10 years. Assuming 100% survival.'']\<rparr>))
        \<and> (filter (\<lambda>p. js_le (time p) (Fin 10))
             (diseaseSurvivalData h (baselineSurvivals e)
                (propKey (getDiseaseCode selectedDiseaseName))) \<noteq> [] \<longrightarrow>
           (\<exists>p \<in> set (filter (\<lambda>p. js_le (time p) (Fin 10))
                        (diseaseSurvivalData h (baselineSurvivals e)
                           (propKey (getDiseaseCode selectedDiseaseName)))).
              (\<forall>q \<in> set (filter (\<lambda>p. js_le (time p) (Fin 10))
                        (diseaseSurvivalData h (baselineSurvivals e)
                           (propKey (getDiseaseCode selectedDiseaseName)))).
                 js_le (time q) (time p))
              \<and> calculateRisk h e formData selectedDiseaseName u =
                  (ReturnDone,
                   u\<lparr>disease_name := selectedDiseaseName,
                     disease_risk := riskText h (predictedRiskOf lp (survival p)),
                     results_shown := True,
                     console := console u\<rparr>))))"
proof -
  have 1: "filter (\<lambda>p. js_le (time p) (Fin 10)) (diseaseSurvivalData h rows code) = [] \<longrightarrow>
      baselineSurvival h rows code n = (Fin 1, [noBaselineWarning n])" for h rows code n
    by (simp add: baselineSurvival_def targetTime_def)
  have 2: "\<exists>p \<in> set (filter (\<lambda>p. js_le (time p) (Fin 10)) (diseaseSurvivalData h rows code)).
             baselineSurvival h rows code n = (survival p, [])
             \<and> (\<forall>q \<in> set (filter (\<lambda>p. js_le (time p) (Fin 10)) (diseaseSurvivalData h rows code)).
                   js_le (time q) (time p))"
    if ne: "filter (\<lambda>p. js_le (time p) (Fin 10)) (diseaseSurvivalData h rows code) \<noteq> []"
    for h rows code n
  proof -
    let ?cands = "filter (\<lambda>p. js_le (time p) (Fin 10)) (diseaseSurvivalData h rows code)"
    obtain c cs where cs: "?cands = c # cs" using ne by (cases ?cands) auto
    have "\<forall>q \<in> set ?cands. time q \<noteq> NaN" by (auto dest: js_le_not_NaN)
    then have nn: "\<forall>q \<in> set (c # cs). time q \<noteq> NaN" by (simp only: cs)
    have b: "baselineSurvival h rows code n = (survival (foldl later c cs), [])"
      using cs by (simp add: baselineSurvival_def targetTime_def)
    have "foldl later c cs \<in> set (c # cs)" by (rule foldl_later_in)
    moreover have "\<forall>q \<in> set (c # cs). js_le (time q) (time (foldl later c cs))"
      using nn by (rule foldl_later_greatest)
    ultimately show ?thesis using b unfolding cs by blast
  qed
  have 3: "baselineSurvival example_host
        [[(''Time'', ''0''), (''cad'', ''1.0'')], [(''Time'', ''5''), (''cad'', ''0.98'')],
         [(''Time'', ''12''), (''cad'', ''0.90'')]] ''cad'' diseaseName = (Fin (98 / 100), [])"
    by (simp add: num_defs data_defs calc_defs example_defs)
  have 4: "baselineSurvival example_host [[(''Time'', ''15''), (''cad'', ''0.80'')]] ''cad'' diseaseName
       = (Fin 1, [noBaselineWarning diseaseName])"
    by (simp add: num_defs data_defs example_defs targetTime_def diseaseSurvivalData_def
        baselineSurvival_def)
  have 5: "noBaselineWarning diseaseName =
        ''No baseline survival data found for \"'' @ diseaseName @
        ''\" at or before 10 years. Assuming 100% survival.''"
    by (rule noBaselineWarning_text)
  let ?code = "propKey (getDiseaseCode selectedDiseaseName)"
  let ?cands = "filter (\<lambda>p. js_le (time p) (Fin 10))
             (diseaseSurvivalData h (baselineSurvivals e) ?code)"
  have 6: "(?cands = [] \<longrightarrow>
           calculateRisk h e formData selectedDiseaseName u =
             (ReturnDone,
              u\<lparr>disease_name := selectedDiseaseName,
                disease_risk := riskText h (predictedRiskOf lp (Fin 1)),
                results_shown := True,
                console := console u @
                  [''No baseline survival data found for \"'' @ selectedDiseaseName @
                   ''\" at or before 10 years. Assuming 100% survival.'']\<rparr>))
        \<and> (?cands \<noteq> [] \<longrightarrow>
           (\<exists>p \<in> set ?cands.
              (\<forall>q \<in> set ?cands. js_le (time q) (time p))
              \<and> calculateRisk h e formData selectedDiseaseName u =
                  (ReturnDone,
                   u\<lparr>disease_name := selectedDiseaseName,
                     disease_risk := riskText h (predictedRiskOf lp (survival p)),
                     results_shown := True,
                     console := console u\<rparr>)))"
    if run: "parseForm h formData Map.empty = Inr parsed
        \<and> resolvePercentiles h (percentileMap e) ?code percentileVars (encodeEthnicity parsed)
            = Inr parsedData
        \<and> scalePanel h (panelScalerParams e) parsedData
             (u\<lparr>disease_name := selectedDiseaseName, disease_risk := ''Calculating...'',
                results_shown := True\<rparr>) = st
        \<and> \<not> scalingError st
        \<and> coefficients e = r # rs
        \<and> linearPredictorOf h (coefficients e) (featureColumnName r) ?code (scaledData st)
             parsedData = lp"
  proof -
    from run have p1: "parseForm h formData Map.empty = Inr parsed"
      and p2: "resolvePercentiles h (percentileMap e) ?code percentileVars (encodeEthnicity parsed)
            = Inr parsedData"
      and p3: "scalePanel h (panelScalerParams e) parsedData
             (u\<lparr>disease_name := selectedDiseaseName, disease_risk := ''Calculating...'',
                results_shown := True\<rparr>) = st"
      and p4: "\<not> scalingError st"
      and p5: "coefficients e = r # rs"
      and p6: "linearPredictorOf h (coefficients e) (featureColumnName r) ?code (scaledData st)
             parsedData = lp"
      by blast+
    note fin = calculateRisk_done [OF p1 p2 p3 p4 p5 p6]
    have a: "calculateRisk h e formData selectedDiseaseName u =
             (ReturnDone,
              u\<lparr>disease_name := selectedDiseaseName,
                disease_risk := riskText h (predictedRiskOf lp (Fin 1)),
                results_shown := True,
                console := console u @
                  [''No baseline survival data found for \"'' @ selectedDiseaseName @
                   ''\" at or before 10 years. Assuming 100% survival.'']\<rparr>)"
      if "?cands = []"
    proof -
      from 1 [of h "baselineSurvivals e" ?code selectedDiseaseName] that
      have "baselineSurvival h (baselineSurvivals e) ?code selectedDiseaseName
          = (Fin 1, [noBaselineWarning selectedDiseaseName])" by blast
      from fin [OF this] show ?thesis by (simp add: noBaselineWarning_text)
    qed
    have b: "\<exists>p \<in> set ?cands.
              (\<forall>q \<in> set ?cands. js_le (time q) (time p))
              \<and> calculateRisk h e formData selectedDiseaseName u =
                  (ReturnDone,
                   u\<lparr>disease_name := selectedDiseaseName,
                     disease_risk := riskText h (predictedRiskOf lp (survival p)),
                     results_shown := True,
                     console := console u\<rparr>)"
      if "?cands \<noteq> []"
    proof -
      from 2 [OF that, of selectedDiseaseName] obtain p where p: "p \<in> set ?cands"
        and bs: "baselineSurvival h (baselineSurvivals e) ?code selectedDiseaseName = (survival p, [])"
        and gr: "\<forall>q \<in> set ?cands. js_le (time q) (time p)" by blast
      from fin [OF bs] have "calculateRisk h e formData selectedDiseaseName u =
                  (ReturnDone,
                   u\<lparr>disease_name := selectedDiseaseName,
                     disease_risk := riskText h (predictedRiskOf lp (survival p)),
                     results_shown := True,
                     console := console u\<rparr>)" by simp
      with p gr show ?thesis by blast
    qed
    from a b show ?thesis by blast
  qed
  show ?thesis
    apply (intro conjI)
         apply (rule 1)
        apply (rule impI, erule 2)
       apply (rule 3)
      apply (rule 4)
     apply (rule 5)
    apply (rule impI, erule 6)
    done
qed

text \<open>
  Claim C4 on the example tables: no candidate for \<open>stroke\<close>, two for \<open>cad\<close>. The run
  for stroke, with a percentile row added for it, logs the warning and shows 0.0%; the run
  for coronary artery disease logs nothing and shows 2.0%.
\<close>

theorem baseline_survival_at_horizon_witness:
  "baselineSurvival example_host example_survivals ''stroke'' ''Stroke''
     = (Fin 1, [noBaselineWarning ''Stroke''])
   \<and> baselineSurvival example_host example_survivals ''cad'' ''Coronary artery disease''
     = (Fin (98 / 100), [])
   \<and> calculateRisk example_host
        (example_env\<lparr>percentileMap := preparePercentilesData example_host
           [[(''outcome'', ''stroke''), (''score'', ''proscore''), (''p50'', ''0'')]]
           (percentileMap example_env)\<rparr>)
        example_form ''Stroke'' example_ui
     = (ReturnDone,
        example_ui\<lparr>disease_name := ''Stroke'', disease_risk := ''0.0%'', results_shown := True,
          console := [''No baseline survival data found for \"Stroke\" at or before 10 years. Assuming 100% survival.'']\<rparr>)
   \<and> calculateRisk example_host example_env example_form ''Coronary artery disease'' example_ui
     = (ReturnDone,
        example_ui\<lparr>disease_name := ''Coronary artery disease'', disease_risk := ''2.0%'',
          results_shown := True, console := []\<rparr>)"
proof -
  let ?es = "example_env\<lparr>percentileMap := preparePercentilesData example_host
           [[(''outcome'', ''stroke''), (''score'', ''proscore''), (''p50'', ''0'')]]
           (percentileMap example_env)\<rparr>"
  let ?parsed = "projr (parseForm example_host example_form Map.empty)"
  have s: "filter (\<lambda>p. js_le (time p) (Fin 10))
             (diseaseSurvivalData example_host example_survivals ''stroke'') = []"
    by (simp add: num_defs data_defs example_defs diseaseSurvivalData_def)
  have c: "filter (\<lambda>p. js_le (time p) (Fin 10))
             (diseaseSurvivalData example_host example_survivals ''cad'')
           = [\<lparr>time = Fin 0, survival = Fin 1\<rparr>, \<lparr>time = Fin 5, survival = Fin (98 / 100)\<rparr>]"
    by (simp add: num_defs data_defs example_defs diseaseSurvivalData_def)
  have code: "propKey (getDiseaseCode ''Stroke'') = ''stroke''"
    "propKey (getDiseaseCode ''Coronary artery disease'') = ''cad''"
    by (simp_all add: data_defs)
  have surv: "baselineSurvivals ?es = example_survivals" "baselineSurvivals example_env = example_survivals"
    by (simp_all add: example_env_def)
  have parse: "parseForm example_host example_form Map.empty = Inr ?parsed"
    by (simp add: num_defs data_defs calc_defs example_defs Let_def)
  have ui: "console example_ui = []" by (simp add: example_ui_def)

  let ?pd_s = "projr (resolvePercentiles example_host (percentileMap ?es)
                 (propKey (getDiseaseCode ''Stroke'')) percentileVars (encodeEthnicity ?parsed))"
  let ?st_s = "scalePanel example_host (panelScalerParams ?es) ?pd_s
                 (example_ui\<lparr>disease_name := ''Stroke'', disease_risk := ''Calculating...'',
                    results_shown := True\<rparr>)"
  let ?lp_s = "linearPredictorOf example_host (coefficients ?es)
                 (featureColumnName (hd example_coefficients))
                 (propKey (getDiseaseCode ''Stroke'')) (scaledData ?st_s) ?pd_s"
  have resolve_s: "resolvePercentiles example_host (percentileMap ?es)
                 (propKey (getDiseaseCode ''Stroke'')) percentileVars (encodeEthnicity ?parsed)
               = Inr ?pd_s"
    by (simp add: num_defs data_defs calc_defs example_defs Let_def)
  have ok_s: "\<not> scalingError ?st_s"
    by (simp add: num_defs data_defs calc_defs example_defs Let_def)
  have co_s: "coefficients ?es = hd example_coefficients # tl example_coefficients"
    by (simp add: example_defs)
  have lp_s: "?lp_s = Fin 0"
    by (simp add: num_defs data_defs calc_defs example_defs Let_def)
  have cands_s: "filter (\<lambda>p. js_le (time p) (Fin 10))
             (diseaseSurvivalData example_host (baselineSurvivals ?es)
                (propKey (getDiseaseCode ''Stroke''))) = []"
    unfolding surv code by (rule s)
  note T_s = baseline_survival_at_horizon [where h = example_host and rows = example_survivals
      and code = "''stroke''" and diseaseName = "''Stroke''" and formData = example_form
      and parsed = ?parsed and e = ?es and selectedDiseaseName = "''Stroke''"
      and parsedData = ?pd_s and u = example_ui and st = ?st_s
      and r = "hd example_coefficients" and rs = "tl example_coefficients" and lp = ?lp_s]
  from T_s have t_s: "(filter (\<lambda>p. js_le (time p) (Fin 10))
               (diseaseSurvivalData example_host example_survivals ''stroke'') = [] \<longrightarrow>
             baselineSurvival example_host example_survivals ''stroke'' ''Stroke''
               = (Fin 1, [noBaselineWarning ''Stroke'']))"
    by (rule conjunct1)
  from T_s have run_s: "parseForm example_host example_form Map.empty = Inr ?parsed
        \<and> resolvePercentiles example_host (percentileMap ?es) (propKey (getDiseaseCode ''Stroke''))
             percentileVars (encodeEthnicity ?parsed) = Inr ?pd_s
        \<and> scalePanel example_host (panelScalerParams ?es) ?pd_s
             (example_ui\<lparr>disease_name := ''Stroke'', disease_risk := ''Calculating...'',
                results_shown := True\<rparr>) = ?st_s
        \<and> \<not> scalingError ?st_s
        \<and> coefficients ?es = hd example_coefficients # tl example_coefficients
        \<and> linearPredictorOf example_host (coefficients ?es)
             (featureColumnName (hd example_coefficients))
             (propKey (getDiseaseCode ''Stroke'')) (scaledData ?st_s) ?pd_s = ?lp_s
        \<longrightarrow>
          (filter (\<lambda>p. js_le (time p) (Fin 10))
             (diseaseSurvivalData example_host (baselineSurvivals ?es)
                (propKey (getDiseaseCode ''Stroke''))) = [] \<longrightarrow>
           calculateRisk example_host ?es example_form ''Stroke'' example_ui =
             (ReturnDone,
              example_ui\<lparr>disease_name := ''Stroke'',
                disease_risk := riskText example_host (predictedRiskOf ?lp_s (Fin 1)),
                results_shown := True,
                console := console example_ui @
                  [''No baseline survival data found for \"'' @ ''Stroke'' @
                   ''\" at or before 10 years. Assuming 100% survival.'']\<rparr>))
        \<and> (filter (\<lambda>p. js_le (time p) (Fin 10))
             (diseaseSurvivalData example_host (baselineSurvivals ?es)
                (propKey (getDiseaseCode ''Stroke''))) \<noteq> [] \<longrightarrow>
           (\<exists>p \<in> set (filter (\<lambda>p. js_le (time p) (Fin 10))
                        (diseaseSurvivalData example_host (baselineSurvivals ?es)
                           (propKey (getDiseaseCode ''Stroke'')))).
              (\<forall>q \<in> set (filter (\<lambda>p. js_le (time p) (Fin 10))
                        (diseaseSurvivalData example_host (baselineSurvivals ?es)
                           (propKey (getDiseaseCode ''Stroke'')))).
                 js_le (time q) (time p))
              \<and> calculateRisk example_host ?es example_form ''Stroke'' example_ui =
                  (ReturnDone,
                   example_ui\<lparr>disease_name := ''Stroke'',
                     disease_risk := riskText example_host (predictedRiskOf ?lp_s (survival p)),
                     results_shown := True,
                     console := console example_ui\<rparr>)))"
    by (elim conjE)
  from t_s s have a: "baselineSurvival example_host example_survivals ''stroke'' ''Stroke''
     = (Fin 1, [noBaselineWarning ''Stroke''])" by (rule mp)
  from run_s parse resolve_s ok_s co_s cands_s
  have "calculateRisk example_host ?es example_form ''Stroke'' example_ui =
             (ReturnDone,
              example_ui\<lparr>disease_name := ''Stroke'',
                disease_risk := riskText example_host (predictedRiskOf ?lp_s (Fin 1)),
                results_shown := True,
                console := console example_ui @
                  [''No baseline survival data found for \"'' @ ''Stroke'' @
                   ''\" at or before 10 years. Assuming 100% survival.'']\<rparr>)"
    by blast
  moreover have "riskText example_host (predictedRiskOf ?lp_s (Fin 1)) = ''0.0%''"
    unfolding lp_s by (simp add: num_defs calc_defs Let_def)
  ultimately have b: "calculateRisk example_host ?es example_form ''Stroke'' example_ui
     = (ReturnDone,
        example_ui\<lparr>disease_name := ''Stroke'', disease_risk := ''0.0%'', results_shown := True,
          console := [''No baseline survival data found for \"Stroke\" at or before 10 years. Assuming 100% survival.'']\<rparr>)"
    unfolding ui by simp

  let ?n = "''Coronary artery disease''"
  let ?pd_c = "projr (resolvePercentiles example_host (percentileMap example_env)
                 (propKey (getDiseaseCode ?n)) percentileVars (encodeEthnicity ?parsed))"
  let ?st_c = "scalePanel example_host (panelScalerParams example_env) ?pd_c
                 (example_ui\<lparr>disease_name := ?n, disease_risk := ''Calculating...'',
                    results_shown := True\<rparr>)"
  let ?lp_c = "linearPredictorOf example_host (coefficients example_env)
                 (featureColumnName (hd example_coefficients))
                 (propKey (getDiseaseCode ?n)) (scaledData ?st_c) ?pd_c"
  let ?cands_c = "filter (\<lambda>p. js_le (time p) (Fin 10))
             (diseaseSurvivalData example_host (baselineSurvivals example_env)
                (propKey (getDiseaseCode ?n)))"
  have resolve_c: "resolvePercentiles example_host (percentileMap example_env)
                 (propKey (getDiseaseCode ?n)) percentileVars (encodeEthnicity ?parsed)
               = Inr ?pd_c"
    by (simp add: num_defs data_defs calc_defs example_defs Let_def)
  have ok_c: "\<not> scalingError ?st_c"
    by (simp add: num_defs data_defs calc_defs example_defs Let_def)
  have co_c: "coefficients example_env = hd example_coefficients # tl example_coefficients"
    by (simp add: example_defs)
  have lp_c: "?lp_c = Fin 0"
    by (simp add: num_defs data_defs calc_defs example_defs Let_def)
  have cands_c: "?cands_c
      = [\<lparr>time = Fin 0, survival = Fin 1\<rparr>, \<lparr>time = Fin 5, survival = Fin (98 / 100)\<rparr>]"
    unfolding surv code by (rule c)
  then have ne_c: "?cands_c \<noteq> []" by simp
  note T_c = baseline_survival_at_horizon [where h = example_host and rows = example_survivals
      and code = "''cad''" and diseaseName = ?n and formData = example_form
      and parsed = ?parsed and e = example_env and selectedDiseaseName = ?n
      and parsedData = ?pd_c and u = example_ui and st = ?st_c
      and r = "hd example_coefficients" and rs = "tl example_coefficients" and lp = ?lp_c]
  from T_c have t_c: "filter (\<lambda>p. js_le (time p) (Fin 10))
               (diseaseSurvivalData example_host example_survivals ''cad'') \<noteq> [] \<longrightarrow>
        (\<exists>p \<in> set (filter (\<lambda>p. js_le (time p) (Fin 10))
                      (diseaseSurvivalData example_host example_survivals ''cad'')).
           baselineSurvival example_host example_survivals ''cad'' ?n = (survival p, [])
           \<and> (\<forall>q \<in> set (filter (\<lambda>p. js_le (time p) (Fin 10))
                      (diseaseSurvivalData example_host example_survivals ''cad'')).
                 js_le (time q) (time p)))"
    by (elim conjE)
  from T_c have run_c: "parseForm example_host example_form Map.empty = Inr ?parsed
        \<and> resolvePercentiles example_host (percentileMap example_env) (propKey (getDiseaseCode ?n))
             percentileVars (encodeEthnicity ?parsed) = Inr ?pd_c
        \<and> scalePanel example_host (panelScalerParams example_env) ?pd_c
             (example_ui\<lparr>disease_name := ?n, disease_risk := ''Calculating...'',
                results_shown := True\<rparr>) = ?st_c
        \<and> \<not> scalingError ?st_c
        \<and> coefficients example_env = hd example_coefficients # tl example_coefficients
        \<and> linearPredictorOf example_host (coefficients example_env)
             (featureColumnName (hd example_coefficients))
             (propKey (getDiseaseCode ?n)) (scaledData ?st_c) ?pd_c = ?lp_c
        \<longrightarrow>
          (?cands_c = [] \<longrightarrow>
           calculateRisk example_host example_env example_form ?n example_ui =
             (ReturnDone,
              example_ui\<lparr>disease_name := ?n,
                disease_risk := riskText example_host (predictedRiskOf ?lp_c (Fin 1)),
                results_shown := True,
                console := console example_ui @
                  [''No baseline survival data found for \"'' @ ?n @
                   ''\" at or before 10 years. Assuming 100% survival.'']\<rparr>))
        \<and> (?cands_c \<noteq> [] \<longrightarrow>
           (\<exists>p \<in> set ?cands_c.
              (\<forall>q \<in> set ?cands_c. js_le (time q) (time p))
              \<and> calculateRisk example_host example_env example_form ?n example_ui =
                  (ReturnDone,
                   example_ui\<lparr>disease_name := ?n,
                     disease_risk := riskText example_host (predictedRiskOf ?lp_c (survival p)),
                     results_shown := True,
                     console := console example_ui\<rparr>)))"
    by (elim conjE)
  from t_c have "\<exists>p \<in> set [\<lparr>time = Fin 0, survival = Fin 1\<rparr>, \<lparr>time = Fin 5, survival = Fin (98 / 100)\<rparr>].
           baselineSurvival example_host example_survivals ''cad'' ?n = (survival p, [])
           \<and> (\<forall>q \<in> set [\<lparr>time = Fin 0, survival = Fin 1\<rparr>, \<lparr>time = Fin 5, survival = Fin (98 / 100)\<rparr>].
                 js_le (time q) (time p))"
    unfolding c by simp
  then have d: "baselineSurvival example_host example_survivals ''cad'' ?n = (Fin (98 / 100), [])"
    by (auto simp: js_le_def)
  from run_c parse resolve_c ok_c co_c ne_c
  have "\<exists>p \<in> set ?cands_c.
              (\<forall>q \<in> set ?cands_c. js_le (time q) (time p))
              \<and> calculateRisk example_host example_env example_form ?n example_ui =
                  (ReturnDone,
                   example_ui\<lparr>disease_name := ?n,
                     disease_risk := riskText example_host (predictedRiskOf ?lp_c (survival p)),
                     results_shown := True,
                     console := console example_ui\<rparr>)"
    by blast
  then have "calculateRisk example_host example_env example_form ?n example_ui =
                  (ReturnDone,
                   example_ui\<lparr>disease_name := ?n,
                     disease_risk := riskText example_host (predictedRiskOf ?lp_c (Fin (98 / 100))),
                     results_shown := True,
                     console := console example_ui\<rparr>)"
    unfolding cands_c by (auto simp: js_le_def)
  moreover have "riskText example_host (predictedRiskOf ?lp_c (Fin (98 / 100))) = ''2.0%''"
    unfolding lp_c by (simp add: num_defs calc_defs Let_def)
  ultimately have e: "calculateRisk example_host example_env example_form ?n example_ui
     = (ReturnDone,
        example_ui\<lparr>disease_name := ?n, disease_risk := ''2.0%'',
          results_shown := True, console := []\<rparr>)"
    unfolding ui by simp
  from a d b e show ?thesis by (intro conjI)
qed

section \<open>The risk and its text\<close>

text \<open>
  Claim C9, as the code has it. No step tests for a value that is not finite. A linear
  predictor that is \<open>NaN\<close> gives the risk \<open>NaN\<close> for every baseline survival, and
  the text \<open>NaN%\<close> at the end of \<open>calculateRisk\<close>; an infinite risk is written
  \<open>Infinity%\<close> or \<open>-Infinity%\<close>. An infinite linear predictor is not rejected, but
  the arithmetic itself can make the risk finite: minus infinity gives the risk 0, and
  plus infinity gives 1 for a baseline survival below 1 in absolute value, \<open>NaN\<close> for
  one equal to 1, and minus infinity above.
\<close>

theorem non_finite_linear_predictor:
  "predictedRiskOf NaN b = NaN
   \<and> riskText h NaN = ''NaN%''
   \<and> riskText h PInf = ''Infinity%''
   \<and> riskText h NInf = ''-Infinity%''
   \<and> predictedRiskOf NInf b = Fin 0
   \<and> predictedRiskOf PInf (Fin x) =
        (if \<bar>x\<bar> < 1 then Fin 1 else if \<bar>x\<bar> = 1 then NaN else NInf)
   \<and> predictedRiskOf PInf PInf = NInf
   \<and> predictedRiskOf PInf NInf = NInf
   \<and> (parseForm h formData Map.empty = Inr parsed
        \<and> resolvePercentiles h (percentileMap e) (propKey (getDiseaseCode selectedDiseaseName))
             percentileVars (encodeEthnicity parsed) = Inr parsedData
        \<and> scalePanel h (panelScalerParams e) parsedData
             (u\<lparr>disease_name := selectedDiseaseName, disease_risk := ''Calculating...'',
                results_shown := True\<rparr>) = st
        \<and> \<not> scalingError st
        \<and> coefficients e = r # rs
        \<and> linearPredictorOf h (coefficients e) (featureColumnName r)
             (propKey (getDiseaseCode selectedDiseaseName)) (scaledData st) parsedData = NaN
        \<longrightarrow> fst (calculateRisk h e formData selectedDiseaseName u) = ReturnDone
          \<and> disease_risk (snd (calculateRisk h e formData selectedDiseaseName u)) = ''NaN%'')"
proof -
  have 1: "predictedRiskOf NaN c = NaN" for c
    by (simp add: predictedRiskOf_def js_sub_def)
  have 2: "riskText h NaN = ''NaN%''" "riskText h PInf = ''Infinity%''"
    "riskText h NInf = ''-Infinity%''"
    by (simp_all add: riskText_def toFixed1_def numberToString_def inf_of_sign_def)
  have 3: "predictedRiskOf NInf b = Fin 0"
    by (cases b) (simp_all add: predictedRiskOf_def js_sub_def)
  have 4: "predictedRiskOf PInf (Fin x) =
        (if \<bar>x\<bar> < 1 then Fin 1 else if \<bar>x\<bar> = 1 then NaN else NInf)"
    by (auto simp: predictedRiskOf_def js_sub_def)
  have 5: "predictedRiskOf PInf PInf = NInf" "predictedRiskOf PInf NInf = NInf"
    by (simp_all add: predictedRiskOf_def js_sub_def)
  have 6: "fst (calculateRisk h e formData selectedDiseaseName u) = ReturnDone
          \<and> disease_risk (snd (calculateRisk h e formData selectedDiseaseName u)) = ''NaN%''"
    if "parseForm h formData Map.empty = Inr parsed"
      and "resolvePercentiles h (percentileMap e) (propKey (getDiseaseCode selectedDiseaseName))
             percentileVars (encodeEthnicity parsed) = Inr parsedData"
      and "scalePanel h (panelScalerParams e) parsedData
             (u\<lparr>disease_name := selectedDiseaseName, disease_risk := ''Calculating...'',
                results_shown := True\<rparr>) = st"
      and "\<not> scalingError st"
      and "coefficients e = r # rs"
      and "linearPredictorOf h (coefficients e) (featureColumnName r)
             (propKey (getDiseaseCode selectedDiseaseName)) (scaledData st) parsedData = NaN"
    using that by (simp add: calculateRisk_def Let_def 1 2)
  from 1 2 3 4 5 6 show ?thesis by blast
qed

text \<open>
  Claim C9 on the example tables with a mean of \<open>age\<close> that is not a number: the
  linear predictor is \<open>NaN\<close> and the risk text is \<open>NaN%\<close>.
\<close>

theorem non_finite_linear_predictor_witness:
  "fst (calculateRisk example_host
         (example_env\<lparr>panelScalerParams :=
            [(''feature'', ''age''), (''mean'', ''NA''), (''variance'', ''1'')] # tl example_scaler\<rparr>)
         example_form ''Coronary artery disease'' example_ui) = ReturnDone
   \<and> disease_risk (snd (calculateRisk example_host
         (example_env\<lparr>panelScalerParams :=
            [(''feature'', ''age''), (''mean'', ''NA''), (''variance'', ''1'')] # tl example_scaler\<rparr>)
         example_form ''Coronary artery disease'' example_ui)) = ''NaN%''"
proof -
  let ?e = "example_env\<lparr>panelScalerParams :=
            [(''feature'', ''age''), (''mean'', ''NA''), (''variance'', ''1'')] # tl example_scaler\<rparr>"
  let ?n = "''Coronary artery disease''"
  let ?parsed = "projr (parseForm example_host example_form Map.empty)"
  let ?pd = "projr (resolvePercentiles example_host (percentileMap ?e)
               (propKey (getDiseaseCode ?n)) percentileVars (encodeEthnicity ?parsed))"
  let ?st = "scalePanel example_host (panelScalerParams ?e) ?pd
             (example_ui\<lparr>disease_name := ?n, disease_risk := ''Calculating...'',
                results_shown := True\<rparr>)"
  have parse: "parseForm example_host example_form Map.empty = Inr ?parsed"
    by (simp add: num_defs data_defs calc_defs example_defs Let_def)
  have resolve: "resolvePercentiles example_host (percentileMap ?e)
               (propKey (getDiseaseCode ?n)) percentileVars (encodeEthnicity ?parsed) = Inr ?pd"
    by (simp add: num_defs data_defs calc_defs example_defs Let_def)
  have ok: "\<not> scalingError ?st"
    by (simp add: num_defs data_defs calc_defs example_defs Let_def)
  have co: "coefficients ?e = hd example_coefficients # tl example_coefficients"
    by (simp add: example_defs)
  have lp: "linearPredictorOf example_host (coefficients ?e)
             (featureColumnName (hd example_coefficients))
             (propKey (getDiseaseCode ?n)) (scaledData ?st) ?pd = NaN"
    by (simp add: num_defs data_defs calc_defs example_defs Let_def)
  from non_finite_linear_predictor [where h = example_host and formData = example_form
      and parsed = ?parsed and e = ?e and selectedDiseaseName = ?n and parsedData = ?pd
      and u = example_ui and st = ?st and r = "hd example_coefficients"
      and rs = "tl example_coefficients"]
    parse resolve ok co lp
  show ?thesis by blast
qed

text \<open>
  Claim C9 as stated fails for an infinite coefficient: the linear predictor is plus
  infinity, the risk is 1 and the text is \<open>100.0%\<close>.
\<close>

theorem infinite_linear_predictor_counterexample:
  "linearPredictorOf example_host [[(''feature'', ''age''), (''cad'', ''Infinity'')]]
     (Some ''feature'') ''cad'' [''age'' \<mapsto> Fin 1] Map.empty = PInf
   \<and> predictedRiskOf PInf (Fin (98 / 100)) = Fin 1
   \<and> calculateRisk example_host
        (example_env\<lparr>coefficients := [[(''feature'', ''age''), (''cad'', ''Infinity'')]]\<rparr>)
        example_form ''Coronary artery disease'' example_ui
      = (ReturnDone,
         example_ui\<lparr>disease_name := ''Coronary artery disease'', disease_risk := ''100.0%'',
                    results_shown := True\<rparr>)"
  by (simp add: num_defs data_defs calc_defs example_defs Let_def)

section \<open>The result area after a failure\<close>

text \<open>
  Claim C1 on the example tables. A failed lookup (no row for \<open>proscore\<close> of
  \<open>stroke\<close>) leaves \<open>Calculating...\<close> as the risk text; an empty \<open>age\<close> field
  after a calculation that showed \<open>2.0%\<close> leaves \<open>2.0%\<close>; only the scaling
  failure sets \<open>--\<close>.
\<close>

theorem failure_leaves_result_area:
  "calculateRisk example_host example_env example_form ''Stroke'' example_ui
     = (ReturnLookupFailed,
        example_ui\<lparr>disease_name := ''Stroke'', disease_risk := ''Calculating...'',
                   results_shown := True, alerts := [lookupFailedMessage ''proscore''],
                   console := [''Error looking up percentile for proscore:'']\<rparr>)
   \<and> calculateRisk example_host example_env (with_field ''age'' [] example_form)
        ''Coronary artery disease''
        (snd (calculateRisk example_host example_env example_form ''Coronary artery disease''
                example_ui))
     = (ReturnInvalidInput,
        example_ui\<lparr>disease_name := ''Coronary artery disease'', disease_risk := ''2.0%'',
                   results_shown := True,
                   alerts := [''Please enter a valid number for: Age (years)'']\<rparr>)
   \<and> calculateRisk example_host (example_env\<lparr>panelScalerParams := tl example_scaler\<rparr>)
        example_form ''Coronary artery disease'' example_ui
     = (ReturnScalingFailed,
        example_ui\<lparr>disease_name := ''Coronary artery disease'', disease_risk := ''--'',
                   results_shown := True, alerts := [missingParamsMessage ''age''],
                   console := [missingParamsLog ''age'']\<rparr>)"
  by (simp add: num_defs data_defs calc_defs example_defs Let_def)

end
